theory Spec2Isabelle
  imports Complex_Main "HOL-Library.Char_ord" "HOL-Library.List_Lexorder"
begin

section \<open>Values and tables\<close>

text \<open>
  Python floats are read as reals, with the one non-number the source creates on purpose
  (\<^verbatim>\<open>float('nan')\<close>) kept as a value of its own. Comparisons with \<open>NaN\<close> are false and
  arithmetic on \<open>NaN\<close> gives \<open>NaN\<close>, as in Python.
\<close>

datatype pyfloat = NaN | Fin real

fun py_gt :: "pyfloat \<Rightarrow> pyfloat \<Rightarrow> bool" where
  "py_gt (Fin a) (Fin b) = (a > b)"
| "py_gt _ _ = False"

fun py_lt :: "pyfloat \<Rightarrow> pyfloat \<Rightarrow> bool" where
  "py_lt (Fin a) (Fin b) = (a < b)"
| "py_lt _ _ = False"

fun py_sub :: "pyfloat \<Rightarrow> pyfloat \<Rightarrow> pyfloat" where
  "py_sub (Fin a) (Fin b) = Fin (a - b)"
| "py_sub _ _ = NaN"

text \<open>
  \<open>py_div\<close> is Python's \<^verbatim>\<open>a / b\<close> on floats for a divisor that is not zero; the only
  division of floats in the code modelled here is guarded by \<^verbatim>\<open>max(...) > 0\<close>.
\<close>

fun py_div :: "pyfloat \<Rightarrow> pyfloat \<Rightarrow> pyfloat" where
  "py_div (Fin a) (Fin b) = Fin (a / b)"
| "py_div _ _ = NaN"

text \<open>
  A \<open>sample\<close> is one row of the loaded CSV table (the feature columns are read by the
  model adapter only and are left out); a \<open>row\<close> is the same row after scoring, with the
  \<^verbatim>\<open>'probability'\<close> and \<^verbatim>\<open>'prediction'\<close> columns that \<^verbatim>\<open>run_inference\<close> adds.
  The group tag of a row may be missing (an empty CSV cell, \<^verbatim>\<open>NaN\<close> in the data frame):
  \<^verbatim>\<open>validate_csv\<close> only logs a warning about nulls and passes the table on. A tag is
  any ordered value; the result dictionary is keyed by \<^verbatim>\<open>str(group)\<close>, which is
  one-to-one on the values of one column, so the model keys the results by the tag.
\<close>

record ('l, 'g) sample =
  label_col :: 'l
  group_col :: "'g option"

record ('l, 'g) row = "('l, 'g) sample" +
  prob_col :: real
  pred_col :: int

record metrics_engine =
  threshold :: real
  bootstrap_ci_enabled :: bool

record group_metrics =
  count :: nat
  approval_rate :: pyfloat
  approval_rate_ci :: "(pyfloat \<times> pyfloat) option"
  accuracy :: pyfloat
  tpr :: real
  fpr :: real
  tnr :: real
  fnr :: real
  precision :: real
  recall :: real
  f1_score :: real
  auc :: "real option"

text \<open>
  What the engine takes from NumPy and scikit-learn: \<^verbatim>\<open>roc_auc_score\<close> (\<open>None\<close> when
  it raises), \<^verbatim>\<open>np.random.choice(data, size=n, replace=True)\<close>, which reads and advances
  the process-wide generator (its state is \<open>'rng\<close>), and \<^verbatim>\<open>np.percentile\<close>.
\<close>

record 'rng libs =
  sklearn_available :: bool
  roc_auc_score :: "int list \<Rightarrow> real list \<Rightarrow> real option"
  random_choice :: "'rng \<Rightarrow> int list \<Rightarrow> nat \<Rightarrow> int list \<times> 'rng"
  np_percentile :: "pyfloat list \<Rightarrow> real \<Rightarrow> pyfloat"

datatype error = ValidationError | ModelLoadingError | ValueError | KeyError

section \<open>ModelWrapper.predict\<close>

text \<open>
  \<^verbatim>\<open>predict_proba\<close> is the scoring adapter: one probability per row, or \<open>None\<close> when
  the model fails (the source turns every failure into \<^verbatim>\<open>ModelLoadingError\<close>).
  \<^verbatim>\<open>predict\<close> thresholds its output: \<^verbatim>\<open>(probs >= threshold).astype(int)\<close>.
\<close>

definition predict :: "('d \<Rightarrow> real list option) \<Rightarrow> 'd \<Rightarrow> real \<Rightarrow> error + int list" where
  "predict predict_proba df th =
     (case predict_proba df of
        None \<Rightarrow> Inl ModelLoadingError
      | Some probs \<Rightarrow> Inr (map (\<lambda>p. if p \<ge> th then 1 else 0) probs))"

section \<open>bootstrap_ci\<close>

text \<open>\<^verbatim>\<open>np.mean\<close> of an integer array; the mean of an empty array is \<^verbatim>\<open>nan\<close>.\<close>

definition np_mean :: "int list \<Rightarrow> pyfloat" where
  "np_mean xs = (if xs = [] then NaN else Fin (real_of_int (sum_list xs) / real (length xs)))"

text \<open>
  The loop \<^verbatim>\<open>for _ in range(n_bootstrap)\<close>: each round draws one sample of size \<open>n\<close>
  from the generator and appends its statistic.
\<close>

fun resample :: "('rng \<Rightarrow> 'a list \<Rightarrow> nat \<Rightarrow> 'a list \<times> 'rng) \<Rightarrow> 'a list \<Rightarrow> ('a list \<Rightarrow> pyfloat)
    \<Rightarrow> nat \<Rightarrow> 'rng \<Rightarrow> pyfloat list \<times> 'rng" where
  "resample choice data stat_fn 0 rng = ([], rng)"
| "resample choice data stat_fn (Suc k) rng =
     (let (sample, rng1) = choice rng data (length data);
          (stats, rng2) = resample choice data stat_fn k rng1
      in (stat_fn sample # stats, rng2))"

definition bootstrap_ci :: "('rng \<Rightarrow> 'a list \<Rightarrow> nat \<Rightarrow> 'a list \<times> 'rng) \<Rightarrow> (pyfloat list \<Rightarrow> real \<Rightarrow> pyfloat)
    \<Rightarrow> 'a list \<Rightarrow> ('a list \<Rightarrow> pyfloat) \<Rightarrow> nat \<Rightarrow> real \<Rightarrow> 'rng \<Rightarrow> (pyfloat \<times> pyfloat) \<times> 'rng" where
  "bootstrap_ci choice pct data stat_fn n_bootstrap alpha rng =
     (if length data = 0 then ((NaN, NaN), rng)
      else
        let (stats, rng1) = resample choice data stat_fn n_bootstrap rng;
            lower = pct stats (100 * (alpha / 2));
            upper = pct stats (100 * (1 - alpha / 2))
        in ((lower, upper), rng1))"

section \<open>MetricsEngine.compute_group_metrics\<close>

text \<open>
  \<^verbatim>\<open>df.groupby(group_col)\<close>: the distinct tags in ascending order, each with its rows in
  table order. Rows whose tag is missing belong to no group (pandas drops null keys).
\<close>

definition group_keys :: "('l, 'g::linorder) row list \<Rightarrow> 'g list" where
  "group_keys df = sort (remdups (List.map_filter group_col df))"

definition groupby :: "('l, 'g::linorder) row list \<Rightarrow> ('g \<times> ('l, 'g) row list) list" where
  "groupby df = map (\<lambda>k. (k, filter (\<lambda>r. group_col r = Some k) df)) (group_keys df)"

definition y_true_of :: "'l \<Rightarrow> ('l, 'g) row list \<Rightarrow> int list" where
  "y_true_of pos_label sub = map (\<lambda>r. if label_col r = pos_label then 1 else 0) sub"

definition y_pred_of :: "metrics_engine \<Rightarrow> ('l, 'g) row list \<Rightarrow> int list" where
  "y_pred_of E sub = map (\<lambda>r. if real_of_int (pred_col r) \<ge> threshold E then 1 else 0) sub"

text \<open>\<^verbatim>\<open>int(((y_pred == a) & (y_true == b)).sum())\<close>\<close>

definition mask_sum :: "int \<Rightarrow> int \<Rightarrow> int list \<Rightarrow> int list \<Rightarrow> nat" where
  "mask_sum a b y_pred y_true = length (filter (\<lambda>(p, t). p = a \<and> t = b) (zip y_pred y_true))"

text \<open>\<^verbatim>\<open>float(a / (a + b)) if (a + b) > 0 else 0.0\<close>\<close>

definition rate :: "nat \<Rightarrow> nat \<Rightarrow> real" where
  "rate a b = (if a + b > 0 then real a / real (a + b) else 0)"

text \<open>The confusion counts \<open>(tp, fp, tn, fn)\<close> of one sub-table.\<close>

definition confusion :: "metrics_engine \<Rightarrow> 'l \<Rightarrow> ('l, 'g) row list \<Rightarrow> nat \<times> nat \<times> nat \<times> nat" where
  "confusion E pos_label sub =
     (let y_true = y_true_of pos_label sub;
          y_pred = y_pred_of E sub
      in (mask_sum 1 1 y_pred y_true, mask_sum 1 0 y_pred y_true,
          mask_sum 0 0 y_pred y_true, mask_sum 0 1 y_pred y_true))"

text \<open>
  The body of the loop over the groups: the metrics of one sub-table. The bootstrap
  interval is the one step that reads the generator.
\<close>

definition group_entry :: "'rng libs \<Rightarrow> metrics_engine \<Rightarrow> 'l \<Rightarrow> ('l, 'g) row list \<Rightarrow> 'rng
    \<Rightarrow> group_metrics \<times> 'rng" where
  "group_entry L E pos_label sub rng =
     (let y_true = y_true_of pos_label sub;
          y_prob = map prob_col sub;
          y_pred = y_pred_of E sub;
          (tp, fp, tn, fn) = confusion E pos_label sub;
          total = length sub;
          approval_rate = (if total > 0 then np_mean y_pred else NaN);
          accuracy = (if total > 0
                      then np_mean (map (\<lambda>(p, t). if p = t then 1 else 0) (zip y_pred y_true))
                      else NaN);
          tpr = rate tp fn;
          fpr = rate fp tn;
          tnr = rate tn fp;
          fnr = rate fn tp;
          precision = rate tp fp;
          recall = tpr;
          f1 = (if precision + recall > 0
                then 2 * (precision * recall) / (precision + recall) else 0);
          auc = (if sklearn_available L \<and> length (remdups y_true) > 1
                 then roc_auc_score L y_true y_prob else None);
          (approval_ci, rng1) =
             (if bootstrap_ci_enabled E \<and> total > 0
              then (let (ci, r) = bootstrap_ci (random_choice L) (np_percentile L) y_pred np_mean 200 0.05 rng
                    in (Some ci, r))
              else (None, rng))
      in (\<lparr>count = total, approval_rate = approval_rate, approval_rate_ci = approval_ci,
           accuracy = accuracy, tpr = tpr, fpr = fpr, tnr = tnr, fnr = fnr,
           precision = precision, recall = recall, f1_score = f1, auc = auc\<rparr>, rng1))"

fun group_loop :: "'rng libs \<Rightarrow> metrics_engine \<Rightarrow> 'l \<Rightarrow> ('g \<times> ('l, 'g) row list) list \<Rightarrow> 'rng
    \<Rightarrow> ('g \<times> group_metrics) list \<times> 'rng" where
  "group_loop L E pos_label [] rng = ([], rng)"
| "group_loop L E pos_label ((g, sub) # rest) rng =
     (let (m, rng1) = group_entry L E pos_label sub rng;
          (results, rng2) = group_loop L E pos_label rest rng1
      in ((g, m) # results, rng2))"

definition compute_group_metrics :: "'rng libs \<Rightarrow> metrics_engine \<Rightarrow> ('l, 'g::linorder) row list \<Rightarrow> 'l
    \<Rightarrow> 'rng \<Rightarrow> ('g \<times> group_metrics) list \<times> 'rng" where
  "compute_group_metrics L E df pos_label rng = group_loop L E pos_label (groupby df) rng"

section \<open>MetricsEngine.compute_fairness_metrics and identify_flags\<close>

text \<open>
  Python's \<^verbatim>\<open>max\<close> and \<^verbatim>\<open>min\<close> of a non-empty sequence: start from the first item and
  replace the running best by a later item when the comparison (\<open>item > best\<close> for
  \<^verbatim>\<open>max\<close>, \<open>item < best\<close> for \<^verbatim>\<open>min\<close>) holds. On an empty sequence Python raises
  \<^verbatim>\<open>ValueError\<close>.
\<close>

fun py_best :: "('a \<Rightarrow> 'a \<Rightarrow> bool) \<Rightarrow> 'a list \<Rightarrow> error + 'a" where
  "py_best better [] = Inl ValueError"
| "py_best better (x # xs) = Inr (foldl (\<lambda>best item. if better item best then item else best) x xs)"

definition max_floats :: "pyfloat list \<Rightarrow> error + pyfloat" where
  "max_floats xs = py_best py_gt xs"

definition min_floats :: "pyfloat list \<Rightarrow> error + pyfloat" where
  "min_floats xs = py_best py_lt xs"

definition max_reals :: "real list \<Rightarrow> error + real" where
  "max_reals xs = py_best (\<lambda>item best. item > best) xs"

definition min_reals :: "real list \<Rightarrow> error + real" where
  "min_reals xs = py_best (\<lambda>item best. item < best) xs"

text \<open>Sequencing of steps that may raise: the first error ends the computation.\<close>

fun and_then :: "error + 'a \<Rightarrow> ('a \<Rightarrow> error + 'b) \<Rightarrow> error + 'b" where
  "and_then (Inl e) f = Inl e"
| "and_then (Inr x) f = f x"

text \<open>
  A dictionary is an association list in insertion order; its keys are distinct, so
  reading \<^verbatim>\<open>group_metrics[g]\<close> for every key \<open>g\<close> in key order visits each entry once, in
  order: these are the lists \<open>approval_rates_of\<close>, \<open>tprs_of\<close> and \<open>fprs_of\<close>. The result is the
  empty dictionary or the five disparity entries.
\<close>

definition approval_rates_of :: "('g \<times> group_metrics) list \<Rightarrow> pyfloat list" where
  "approval_rates_of group_metrics = map (\<lambda>(g, m). approval_rate m) group_metrics"

definition tprs_of :: "('g \<times> group_metrics) list \<Rightarrow> real list" where
  "tprs_of group_metrics = map (\<lambda>(g, m). tpr m) group_metrics"

definition fprs_of :: "('g \<times> group_metrics) list \<Rightarrow> real list" where
  "fprs_of group_metrics = map (\<lambda>(g, m). fpr m) group_metrics"

definition compute_fairness_metrics :: "('g \<times> group_metrics) list \<Rightarrow> error + (string \<times> pyfloat) list" where
  "compute_fairness_metrics group_metrics =
     (if length group_metrics < 2 then Inr []
      else
        let approval_rates = approval_rates_of group_metrics;
            tprs = tprs_of group_metrics;
            fprs = fprs_of group_metrics
        in and_then (max_floats approval_rates) (\<lambda>max_ar.
           and_then (min_floats approval_rates) (\<lambda>min_ar.
           and_then (max_reals tprs) (\<lambda>max_tpr.
           and_then (min_reals tprs) (\<lambda>min_tpr.
           and_then (max_reals fprs) (\<lambda>max_fpr.
           and_then (min_reals fprs) (\<lambda>min_fpr.
             let dp_diff = py_sub max_ar min_ar;
                 dp_ratio = (if py_gt max_ar (Fin 0) then py_div min_ar max_ar else Fin 0);
                 eo_diff = max_tpr - min_tpr;
                 tpr_diff = max_tpr - min_tpr;
                 fpr_diff = max_fpr - min_fpr;
                 eq_odds_diff = max tpr_diff fpr_diff
             in Inr [(''demographic_parity_difference'', dp_diff),
                     (''demographic_parity_ratio'', dp_ratio),
                     (''equal_opportunity_difference'', Fin eo_diff),
                     (''equalized_odds_difference'', Fin eq_odds_diff),
                     (''disparate_impact'', dp_ratio)])))))))"

text \<open>\<^verbatim>\<open>d.get(key, default)\<close>\<close>

definition dict_get :: "(string \<times> pyfloat) list \<Rightarrow> string \<Rightarrow> pyfloat \<Rightarrow> pyfloat" where
  "dict_get d k dflt = (case map_of d k of Some v \<Rightarrow> v | None \<Rightarrow> dflt)"

text \<open>
  The flag messages embed the observed value through Python's \<^verbatim>\<open>:.3f\<close> formatting, taken
  here as the parameter \<open>fmt\<close>. A message is built only when its rule fires, and a rule
  on a missing key never fires, so the value it prints is present.
\<close>

definition identify_flags :: "(pyfloat \<Rightarrow> string) \<Rightarrow> (string \<times> pyfloat) list \<Rightarrow> string list" where
  "identify_flags fmt fairness_metrics =
     (let flags = [];
          flags = (if py_lt (dict_get fairness_metrics ''disparate_impact'' (Fin 1)) (Fin 0.8)
                   then flags @ [''Disparate impact ratio = ''
                          @ fmt (dict_get fairness_metrics ''disparate_impact'' (Fin 1)) @ '' < 0.8'']
                   else flags);
          flags = (if py_gt (dict_get fairness_metrics ''demographic_parity_difference'' (Fin 0)) (Fin 0.10)
                   then flags @ [''Demographic parity difference = ''
                          @ fmt (dict_get fairness_metrics ''demographic_parity_difference'' (Fin 0)) @ '' > 0.10'']
                   else flags);
          flags = (if py_gt (dict_get fairness_metrics ''equal_opportunity_difference'' (Fin 0)) (Fin 0.10)
                   then flags @ [''Equal opportunity difference = ''
                          @ fmt (dict_get fairness_metrics ''equal_opportunity_difference'' (Fin 0)) @ '' > 0.10'']
                   else flags);
          flags = (if py_gt (dict_get fairness_metrics ''equalized_odds_difference'' (Fin 0)) (Fin 0.10)
                   then flags @ [''Equalized odds difference = ''
                          @ fmt (dict_get fairness_metrics ''equalized_odds_difference'' (Fin 0)) @ '' > 0.10'']
                   else flags)
      in flags)"

section \<open>MLFairnessEvaluator\<close>

record overall_metrics =
  total_records :: nat
  overall_approval_rate :: pyfloat
  overall_accuracy :: pyfloat

record 'g summary =
  status :: string
  assessment :: string
  overall :: overall_metrics
  group_summary :: "('g \<times> group_metrics) list"
  fairness_metrics :: "(string \<times> pyfloat) list"
  flags :: "string list"

text \<open>\<^verbatim>\<open>MetricsEngine(threshold, bootstrap_ci_enabled=True)\<close>\<close>

definition MetricsEngine :: "real \<Rightarrow> bool \<Rightarrow> metrics_engine" where
  "MetricsEngine th enabled = \<lparr>threshold = th, bootstrap_ci_enabled = enabled\<rparr>"

text \<open>
  \<^verbatim>\<open>validate_csv\<close> on a table that has the required columns: an empty table is refused,
  nulls are only reported.
\<close>

definition validate_csv :: "('l, 'g) sample list \<Rightarrow> error + ('l, 'g) sample list" where
  "validate_csv df = (if df = [] then Inl ValidationError else Inr df)"

text \<open>
  \<^verbatim>\<open>run_inference\<close> scores the table and adds the two columns; assigning a column of the
  wrong length raises in pandas.
\<close>

definition run_inference :: "(('l, 'g) sample list \<Rightarrow> real list option) \<Rightarrow> real \<Rightarrow> ('l, 'g) sample list
    \<Rightarrow> error + ('l, 'g) row list" where
  "run_inference predict_proba th df =
     (case predict_proba df of
        None \<Rightarrow> Inl ModelLoadingError
      | Some probabilities \<Rightarrow>
          (case predict predict_proba df th of
             Inl e \<Rightarrow> Inl e
           | Inr predictions \<Rightarrow>
               if length probabilities \<noteq> length df then Inl ValueError
               else Inr (map (\<lambda>(s, p, y). \<lparr>label_col = label_col s, group_col = group_col s,
                                            prob_col = p, pred_col = y\<rparr>)
                           (zip df (zip probabilities predictions)))))"

definition evaluate_fairness :: "'rng libs \<Rightarrow> (pyfloat \<Rightarrow> string) \<Rightarrow> metrics_engine \<Rightarrow> 'l
    \<Rightarrow> ('l, 'g::linorder) row list \<Rightarrow> 'rng
    \<Rightarrow> (error + overall_metrics \<times> ('g \<times> group_metrics) list \<times> (string \<times> pyfloat) list \<times> string list)
        \<times> 'rng" where
  "evaluate_fairness L fmt engine positive_label df rng =
     (let (group_m, rng1) = compute_group_metrics L engine df positive_label rng;
          y_true = map (\<lambda>r. if label_col r = positive_label then 1 else 0) df;
          y_pred = map pred_col df;
          overall_m = \<lparr>total_records = length df,
                       overall_approval_rate = np_mean y_pred,
                       overall_accuracy = np_mean (map (\<lambda>(t, p). if t = p then 1 else 0) (zip y_true y_pred))\<rparr>
      in (and_then (compute_fairness_metrics group_m) (\<lambda>fairness_m.
            let flag_list = identify_flags fmt fairness_m
            in Inr (overall_m, group_m, fairness_m, flag_list)), rng1))"

text \<open>\<^verbatim>\<open>'FAIL' if flags else 'PASS'\<close>, in \<^verbatim>\<open>generate_summary_json\<close> and in \<^verbatim>\<open>run_evaluation\<close>.\<close>

definition assessment_of :: "string list \<Rightarrow> string" where
  "assessment_of fs = (if fs \<noteq> [] then ''FAIL'' else ''PASS'')"

text \<open>
  \<^verbatim>\<open>run_evaluation\<close> from the loaded table on, without the files it writes: validation,
  inference, evaluation, and the summary it returns. \<open>Inl\<close> is the
  \<^verbatim>\<open>{'status': 'error', ...}\<close> result the method returns for any exception.
\<close>

definition run_evaluation :: "'rng libs \<Rightarrow> (pyfloat \<Rightarrow> string) \<Rightarrow> (('l, 'g) sample list \<Rightarrow> real list option)
    \<Rightarrow> real \<Rightarrow> 'l \<Rightarrow> ('l, 'g::linorder) sample list \<Rightarrow> 'rng \<Rightarrow> (error + 'g summary) \<times> 'rng" where
  "run_evaluation L fmt predict_proba th positive_label csv rng =
     (case validate_csv csv of
        Inl e \<Rightarrow> (Inl e, rng)
      | Inr df0 \<Rightarrow>
          (case run_inference predict_proba th df0 of
             Inl e \<Rightarrow> (Inl e, rng)
           | Inr df \<Rightarrow>
               let (result, rng1) = evaluate_fairness L fmt (MetricsEngine th True) positive_label df rng
               in (and_then result (\<lambda>(overall_m, group_m, fairness_m, flag_list).
                     Inr \<lparr>status = ''success'', assessment = assessment_of flag_list,
                          overall = overall_m, group_summary = group_m,
                          fairness_metrics = fairness_m, flags = flag_list\<rparr>), rng1)))"

section \<open>Face verification: ResultsGenerator and FaceBiasEvaluator (face_bias_evaluator.py)\<close>

record 'grp pair =
  group :: 'grp
  augmentation :: string
  label :: int
  similarity :: real
  prediction :: int

text \<open>\<^verbatim>\<open>ResultsGenerator.add\<close>: the prediction is \<^verbatim>\<open>int(sim >= threshold)\<close>.\<close>

definition add :: "'grp pair list \<Rightarrow> 'grp \<Rightarrow> string \<Rightarrow> int \<Rightarrow> real \<Rightarrow> real \<Rightarrow> 'grp pair list" where
  "add results grp aug lbl sim th =
     (let pred = (if sim \<ge> th then 1 else 0)
      in results @ [\<lparr>group = grp, augmentation = aug, label = lbl, similarity = sim, prediction = pred\<rparr>])"

record rates =
  FMR :: pyfloat
  FNMR :: pyfloat
  pair_accuracy :: pyfloat

text \<open>The mean of a boolean column; the mean of an empty column is \<^verbatim>\<open>nan\<close>.\<close>

definition mask_mean :: "('a \<Rightarrow> bool) \<Rightarrow> 'a list \<Rightarrow> pyfloat" where
  "mask_mean P df = (if df = [] then NaN else Fin (real (length (filter P df)) / real (length df)))"

definition rates_of :: "'grp pair list \<Rightarrow> rates" where
  "rates_of df =
     \<lparr>FMR = mask_mean (\<lambda>p. label p = 0 \<and> prediction p = 1) df,
      FNMR = mask_mean (\<lambda>p. label p = 1 \<and> prediction p = 0) df,
      pair_accuracy = mask_mean (\<lambda>p. label p = prediction p) df\<rparr>"

definition pairs_by :: "('grp pair \<Rightarrow> 'k::linorder) \<Rightarrow> 'grp pair list \<Rightarrow> ('k \<times> 'grp pair list) list" where
  "pairs_by key df = map (\<lambda>k. (k, filter (\<lambda>p. key p = k) df)) (sort (remdups (map key df)))"

record 'grp report =
  overall_pairs :: rates
  by_group :: "('grp \<times> rates) list"
  by_augmentation :: "(string \<times> rates) list"

text \<open>
  \<^verbatim>\<open>ResultsGenerator.compute_metrics\<close>. A data frame built from no pairs has no
  \<^verbatim>\<open>"label"\<close> column, and reading it raises \<^verbatim>\<open>KeyError\<close>.
\<close>

definition compute_metrics :: "('grp::linorder) pair list \<Rightarrow> error + 'grp report" where
  "compute_metrics pairs =
     (if pairs = [] then Inl KeyError
      else Inr \<lparr>overall_pairs = rates_of pairs,
                by_group = map (\<lambda>(k, g). (k, rates_of g)) (pairs_by group pairs),
                by_augmentation = map (\<lambda>(k, g). (k, rates_of g)) (pairs_by augmentation pairs)\<rparr>)"

text \<open>
  The collaborators of the evaluator: the image transforms selected by name, the embedding
  extractor (\<open>None\<close> when it raises) and the similarity function.
\<close>

record 'img face_env =
  transform :: "string \<Rightarrow> 'img \<Rightarrow> 'img"
  get_embedding :: "'img \<Rightarrow> real list option"
  cosine_similarity :: "real list \<Rightarrow> real list \<Rightarrow> real"

definition apply_augmentation :: "'img face_env \<Rightarrow> 'img \<Rightarrow> string \<Rightarrow> 'img" where
  "apply_augmentation env img aug =
     (if aug = ''original'' then img
      else if aug \<in> set [''flip'', ''rotation'', ''brightness'', ''blur'', ''occlusion'', ''noise'', ''shift'']
      then transform env aug img
      else img)"

text \<open>\<^verbatim>\<open>np.all(emb == 0)\<close>\<close>

definition all_zero :: "real list \<Rightarrow> bool" where
  "all_zero emb = list_all (\<lambda>v. v = 0) emb"

text \<open>
  The inner loop \<^verbatim>\<open>for aug in ["original"] + self.augmentations\<close> for one image. An
  exception of the extractor leaves the loop (the pairs added so far stay) and the image is
  not counted as processed: the flag returned is \<open>False\<close>.
\<close>

fun aug_loop :: "'img face_env \<Rightarrow> real \<Rightarrow> 'grp \<Rightarrow> 'img \<Rightarrow> real list \<Rightarrow> string list \<Rightarrow> 'grp pair list
    \<Rightarrow> 'grp pair list \<times> bool" where
  "aug_loop env th grp img orig_emb [] results = (results, True)"
| "aug_loop env th grp img orig_emb (aug # augs) results =
     (let aug_img = apply_augmentation env img aug
      in case get_embedding env aug_img of
           None \<Rightarrow> (results, False)
         | Some aug_emb \<Rightarrow>
             if all_zero aug_emb then aug_loop env th grp img orig_emb augs results
             else let sim = cosine_similarity env orig_emb aug_emb
                  in aug_loop env th grp img orig_emb augs (add results grp aug 1 sim th))"

text \<open>The body of the loop over the image files of one group; \<open>None\<close> is an unreadable file.\<close>

definition process_image :: "'img face_env \<Rightarrow> real \<Rightarrow> string list \<Rightarrow> 'grp \<Rightarrow> 'img option
    \<Rightarrow> 'grp pair list \<times> nat \<Rightarrow> 'grp pair list \<times> nat" where
  "process_image env th augmentations grp file state =
     (let (results, processed_images) = state
      in case file of
           None \<Rightarrow> (results, processed_images)
         | Some img \<Rightarrow>
            (case get_embedding env img of
               None \<Rightarrow> (results, processed_images)
             | Some orig_emb \<Rightarrow>
                 if all_zero orig_emb then (results, processed_images)
                 else let (results1, completed) =
                            aug_loop env th grp img orig_emb (''original'' # augmentations) results
                      in (results1, if completed then processed_images + 1 else processed_images)))"

definition process_dataset :: "'img face_env \<Rightarrow> real \<Rightarrow> string list \<Rightarrow> ('grp \<times> 'img option list) list
    \<Rightarrow> 'grp pair list \<times> nat" where
  "process_dataset env th augmentations dataset =
     foldl (\<lambda>state (grp, files). foldl (\<lambda>st file. process_image env th augmentations grp file st) state files)
       ([], 0) dataset"

text \<open>\<^verbatim>\<open>FaceBiasEvaluator.run_evaluation\<close> up to the report of \<^verbatim>\<open>compute_metrics\<close>.\<close>

definition face_run_evaluation :: "'img face_env \<Rightarrow> real \<Rightarrow> string list \<Rightarrow> ('grp::linorder \<times> 'img option list) list
    \<Rightarrow> error + 'grp report" where
  "face_run_evaluation env th augmentations dataset =
     (if dataset = [] then Inl ValueError
      else let (results, processed_images) = process_dataset env th augmentations dataset
           in if processed_images = 0 then Inl ValueError
              else compute_metrics results)"

section \<open>Face verification: BiasEvaluator (TRIAL.py)\<close>

text \<open>
  One row of the embeddings table: the columns \<^verbatim>\<open>"identity"\<close>, \<^verbatim>\<open>"group"\<close>, \<^verbatim>\<open>"aug"\<close> and
  \<^verbatim>\<open>"embedding"\<close>. \<^verbatim>\<open>BiasEvaluator.__init__\<close> resets the index, so a row's index label is
  its position in the list.
\<close>

record ('id, 'grp) emb_row =
  identity :: 'id
  group_name :: 'grp
  aug :: string
  embedding :: "real list"

record ('id, 'grp) bias_evaluator =
  embeddings_df :: "('id, 'grp) emb_row list"
  similarity_threshold :: real

text \<open>\<^verbatim>\<open>Series.unique()\<close>: the distinct values in order of first appearance.\<close>

definition unique :: "'a list \<Rightarrow> 'a list" where
  "unique xs = rev (remdups (rev xs))"

text \<open>
  The body of the loop of \<^verbatim>\<open>generate_augmented_pairs\<close> for one identity: the index lists
  \<open>originals\<close> and \<open>augments\<close> of its rows; nothing when it has no original row; otherwise
  its first original paired with every augmented row, label 1.
\<close>

definition identity_pairs :: "('id, 'grp) bias_evaluator \<Rightarrow> 'id \<Rightarrow> (nat \<times> nat \<times> int) list" where
  "identity_pairs self ident =
     (let df = embeddings_df self;
          rows = filter (\<lambda>i. identity (df ! i) = ident) [0..<length df];
          originals = filter (\<lambda>i. aug (df ! i) = ''original'') rows;
          augments = filter (\<lambda>i. aug (df ! i) \<noteq> ''original'') rows
      in case originals of
           [] \<Rightarrow> []
         | o_idx # _ \<Rightarrow> map (\<lambda>a_idx. (o_idx, a_idx, 1)) augments)"

definition generate_augmented_pairs :: "('id, 'grp) bias_evaluator \<Rightarrow> (nat \<times> nat \<times> int) list" where
  "generate_augmented_pairs self =
     concat (map (identity_pairs self) (unique (map identity (embeddings_df self))))"





section \<open>Notions used to state the properties\<close>

text \<open>
  The label the engine works with: a row is predicted positive when its prediction column
  is at or above the engine's threshold.
\<close>

definition predicted_positive :: "metrics_engine \<Rightarrow> ('l, 'g) row \<Rightarrow> bool" where
  "predicted_positive E r \<longleftrightarrow> threshold E \<le> real_of_int (pred_col r)"

text \<open>The sub-table of a group, and the number of rows of a table with a property.\<close>

definition rows_of :: "'g \<Rightarrow> ('l, 'g) row list \<Rightarrow> ('l, 'g) row list" where
  "rows_of g df = filter (\<lambda>r. group_col r = Some g) df"

definition count_where :: "('a \<Rightarrow> bool) \<Rightarrow> 'a list \<Rightarrow> nat" where
  "count_where P rows = length (filter P rows)"

text \<open>
  Confusion counts added up over the groups of a result, each group's counts being those
  of its sub-table, and the group sizes added up.
\<close>

fun add4 :: "nat \<times> nat \<times> nat \<times> nat \<Rightarrow> nat \<times> nat \<times> nat \<times> nat \<Rightarrow> nat \<times> nat \<times> nat \<times> nat" where
  "add4 (a, b, c, d) (a', b', c', d') = (a + a', b + b', c + c', d + d')"

definition sum_confusion :: "(nat \<times> nat \<times> nat \<times> nat) list \<Rightarrow> nat \<times> nat \<times> nat \<times> nat" where
  "sum_confusion cs = foldr add4 cs (0, 0, 0, 0)"

definition results_confusion :: "metrics_engine \<Rightarrow> 'l \<Rightarrow> ('l, 'g) row list \<Rightarrow> ('g \<times> group_metrics) list
    \<Rightarrow> nat \<times> nat \<times> nat \<times> nat" where
  "results_confusion E pos df results = sum_confusion (map (\<lambda>(g, m). confusion E pos (rows_of g df)) results)"

definition results_count :: "('g \<times> group_metrics) list \<Rightarrow> nat" where
  "results_count results = sum_list (map (\<lambda>(g, m). count m) results)"

text \<open>The scored row that \<^verbatim>\<open>run_inference\<close> makes of a sample and its probability.\<close>

definition scored :: "real \<Rightarrow> ('l, 'g) sample \<times> real \<Rightarrow> ('l, 'g) row" where
  "scored th sp = \<lparr>label_col = label_col (fst sp), group_col = group_col (fst sp),
                    prob_col = snd sp, pred_col = (if snd sp \<ge> th then 1 else 0)\<rparr>"

text \<open>The result of \<^verbatim>\<open>compute_group_metrics\<close> with the bootstrap intervals blanked.\<close>

definition without_ci :: "('g \<times> group_metrics) list \<Rightarrow> ('g \<times> group_metrics) list" where
  "without_ci results = map (\<lambda>(g, m). (g, m\<lparr>approval_rate_ci := None\<rparr>)) results"

text \<open>The pair that \<^verbatim>\<open>results.add(group, aug, 1, sim, self.threshold)\<close> appends.\<close>

definition pair_of :: "'img face_env \<Rightarrow> real \<Rightarrow> 'grp \<Rightarrow> real list \<Rightarrow> string \<times> real list \<Rightarrow> 'grp pair" where
  "pair_of env th grp orig_emb ae =
     \<lparr>group = grp, augmentation = fst ae, label = 1,
      similarity = cosine_similarity env orig_emb (snd ae),
      prediction = (if cosine_similarity env orig_emb (snd ae) \<ge> th then 1 else 0)\<rparr>"

section \<open>Concrete inputs\<close>

text \<open>
  Stand-ins for the libraries. \<open>no_libs\<close>: no scikit-learn, a generator whose every sample
  is the data itself, and a percentile that is not a number. \<open>tape_libs\<close>: a generator
  whose state is the list of indices it will draw next, and NumPy's default percentile of a
  list of numbers (linear interpolation between the two nearest ranks of the sorted list).
\<close>

definition no_libs :: "unit libs" where
  "no_libs = \<lparr>sklearn_available = False, roc_auc_score = (\<lambda>y_true y_prob. None),
              random_choice = (\<lambda>rng data n. (data, rng)), np_percentile = (\<lambda>stats q. NaN)\<rparr>"

definition tape_choice :: "nat list \<Rightarrow> 'a list \<Rightarrow> nat \<Rightarrow> 'a list \<times> nat list" where
  "tape_choice tape data n = (map (\<lambda>i. data ! (i mod length data)) (take n tape), drop n tape)"

definition percentile_linear :: "pyfloat list \<Rightarrow> real \<Rightarrow> pyfloat" where
  "percentile_linear stats q =
     (if stats = [] \<or> NaN \<in> set stats then NaN
      else let a = sort (List.map_filter (\<lambda>s. case s of Fin x \<Rightarrow> Some x | NaN \<Rightarrow> None) stats);
               h = (q / 100) * real (length a - 1);
               lo = nat \<lfloor>h\<rfloor>;
               hi = nat \<lceil>h\<rceil>
           in Fin (a ! lo + (h - real lo) * (a ! hi - a ! lo)))"

definition tape_libs :: "nat list libs" where
  "tape_libs = \<lparr>sklearn_available = False, roc_auc_score = (\<lambda>y_true y_prob. None),
                random_choice = tape_choice, np_percentile = percentile_linear\<rparr>"

text \<open>Scored tables: two groups; one row without a group tag; nobody approved.\<close>

definition demo_table :: "(int, string) row list" where
  "demo_table =
    [\<lparr>label_col = 1, group_col = Some ''B'', prob_col = 0.9, pred_col = 1\<rparr>,
     \<lparr>label_col = 0, group_col = Some ''A'', prob_col = 0.7, pred_col = 1\<rparr>,
     \<lparr>label_col = 1, group_col = Some ''B'', prob_col = 0.2, pred_col = 0\<rparr>,
     \<lparr>label_col = 0, group_col = Some ''A'', prob_col = 0.1, pred_col = 0\<rparr>]"

definition untagged_table :: "(int, string) row list" where
  "untagged_table =
    [\<lparr>label_col = 1, group_col = Some ''A'', prob_col = 0.9, pred_col = 1\<rparr>,
     \<lparr>label_col = 1, group_col = None, prob_col = 0.8, pred_col = 1\<rparr>,
     \<lparr>label_col = 0, group_col = Some ''B'', prob_col = 0.3, pred_col = 0\<rparr>]"

definition rejected_table :: "(int, string) row list" where
  "rejected_table =
    [\<lparr>label_col = 1, group_col = Some ''A'', prob_col = 0.4, pred_col = 0\<rparr>,
     \<lparr>label_col = 0, group_col = Some ''B'', prob_col = 0.3, pred_col = 0\<rparr>]"

text \<open>
  Per-group metrics with approval rates 40/80 and 4/20: in \<open>scenario_metrics\<close> the TPR gap
  is the larger one, in \<open>odds_metrics\<close> the FPR gap is.
\<close>

definition scenario_metrics :: "(string \<times> group_metrics) list" where
  "scenario_metrics =
    [(''A'', \<lparr>count = 80, approval_rate = Fin 0.5, approval_rate_ci = None, accuracy = Fin 0.75,
              tpr = 0.8, fpr = 0.25, tnr = 0.75, fnr = 0.2, precision = 0.75, recall = 0.8,
              f1_score = 0.5, auc = None\<rparr>),
     (''B'', \<lparr>count = 20, approval_rate = Fin 0.2, approval_rate_ci = None, accuracy = Fin 0.75,
              tpr = 0.5, fpr = 0.125, tnr = 0.875, fnr = 0.5, precision = 0.5, recall = 0.5,
              f1_score = 0.5, auc = None\<rparr>)]"

definition odds_metrics :: "(string \<times> group_metrics) list" where
  "odds_metrics =
    [(''A'', \<lparr>count = 80, approval_rate = Fin 0.5, approval_rate_ci = None, accuracy = Fin 0.75,
              tpr = 0.8, fpr = 0.25, tnr = 0.75, fnr = 0.2, precision = 0.75, recall = 0.8,
              f1_score = 0.5, auc = None\<rparr>),
     (''B'', \<lparr>count = 20, approval_rate = Fin 0.2, approval_rate_ci = None, accuracy = Fin 0.75,
              tpr = 0.7, fpr = 0.05, tnr = 0.95, fnr = 0.3, precision = 0.5, recall = 0.7,
              f1_score = 0.5, auc = None\<rparr>)]"

text \<open>
  Loaded tables with one group and with two groups, scoring adapters for them, a message
  format, and the summaries and group metrics that runs on them produce.
\<close>

definition single_group_csv :: "(int, string) sample list" where
  "single_group_csv =
    [\<lparr>label_col = 1, group_col = Some ''A''\<rparr>, \<lparr>label_col = 0, group_col = Some ''A''\<rparr>]"

definition demo_scores :: "(int, string) sample list \<Rightarrow> real list option" where
  "demo_scores df = Some (map (\<lambda>s. if label_col s = 1 then 0.9 else 0.2) df)"

definition demo_fmt :: "pyfloat \<Rightarrow> string" where
  "demo_fmt x = ''?''"

definition single_group_summary :: "string summary" where
  "single_group_summary =
     \<lparr>status = ''success'', assessment = ''PASS'',
      overall = \<lparr>total_records = 2, overall_approval_rate = Fin (1 / 2), overall_accuracy = Fin 1\<rparr>,
      group_summary =
        [(''A'', \<lparr>count = 2, approval_rate = Fin (1 / 2), approval_rate_ci = Some (NaN, NaN),
                  accuracy = Fin 1, tpr = 1, fpr = 0, tnr = 1, fnr = 0, precision = 1,
                  recall = 1, f1_score = 1, auc = None\<rparr>)],
      fairness_metrics = [], flags = []\<rparr>"

definition demo_csv :: "(int, string) sample list" where
  "demo_csv =
    [\<lparr>label_col = 1, group_col = Some ''A''\<rparr>, \<lparr>label_col = 0, group_col = Some ''A''\<rparr>,
     \<lparr>label_col = 1, group_col = Some ''B''\<rparr>, \<lparr>label_col = 0, group_col = Some ''B''\<rparr>]"

definition demo_probabilities :: "(int, string) sample list \<Rightarrow> real list option" where
  "demo_probabilities df = Some (take (length df) [0.7, 0.6, 0.9, 0.2])"

definition demo_scored :: "real \<Rightarrow> (int, string) row list" where
  "demo_scored th = map (scored th) (zip demo_csv [0.7, 0.6, 0.9, 0.2])"

definition group_A_low :: group_metrics where
  "group_A_low = \<lparr>count = 2, approval_rate = Fin 1, approval_rate_ci = None,
     accuracy = Fin (1 / 2), tpr = 1, fpr = 1, tnr = 0, fnr = 0,
     precision = 1 / 2, recall = 1, f1_score = 2 / 3, auc = None\<rparr>"

definition group_A_high :: group_metrics where
  "group_A_high = \<lparr>count = 2, approval_rate = Fin (1 / 2), approval_rate_ci = None,
     accuracy = Fin 1, tpr = 1, fpr = 0, tnr = 1, fnr = 0, precision = 1,
     recall = 1, f1_score = 1, auc = None\<rparr>"

definition out_of_range_summary :: "string summary" where
  "out_of_range_summary =
     \<lparr>status = ''success'', assessment = ''FAIL'',
      overall = \<lparr>total_records = 4, overall_approval_rate = Fin 0, overall_accuracy = Fin (1 / 2)\<rparr>,
      group_summary =
        [(''A'', \<lparr>count = 2, approval_rate = Fin 0, approval_rate_ci = Some (NaN, NaN),
                  accuracy = Fin (1 / 2), tpr = 0, fpr = 0, tnr = 1, fnr = 1, precision = 0,
                  recall = 0, f1_score = 0, auc = None\<rparr>),
         (''B'', \<lparr>count = 2, approval_rate = Fin 0, approval_rate_ci = Some (NaN, NaN),
                  accuracy = Fin (1 / 2), tpr = 0, fpr = 0, tnr = 1, fnr = 1, precision = 0,
                  recall = 0, f1_score = 0, auc = None\<rparr>)],
      fairness_metrics =
        [(''demographic_parity_difference'', Fin 0),
         (''demographic_parity_ratio'', Fin 0),
         (''equal_opportunity_difference'', Fin 0),
         (''equalized_odds_difference'', Fin 0),
         (''disparate_impact'', Fin 0)],
      flags = [''Disparate impact ratio = ? < 0.8'']\<rparr>"

text \<open>
  Stand-ins for the face collaborators: an image is its own embedding, a transform shifts
  every entry by one, and the similarity is the inner product.
\<close>

definition demo_face_env :: "real list face_env" where
  "demo_face_env =
     \<lparr>transform = (\<lambda>name img. map (\<lambda>v. v + 1) img),
      get_embedding = (\<lambda>img. Some img),
      cosine_similarity = (\<lambda>a b. sum_list (map (\<lambda>(x, y). x * y) (zip a b)))\<rparr>"

definition demo_report :: "string report" where
  "demo_report =
     \<lparr>overall_pairs = \<lparr>FMR = Fin 0, FNMR = Fin (1 / 4), pair_accuracy = Fin (3 / 4)\<rparr>,
      by_group = [(''male'', \<lparr>FMR = Fin 0, FNMR = Fin (1 / 4), pair_accuracy = Fin (3 / 4)\<rparr>)],
      by_augmentation =
        [(''blur'', \<lparr>FMR = Fin 0, FNMR = Fin 0, pair_accuracy = Fin 1\<rparr>),
         (''flip'', \<lparr>FMR = Fin 0, FNMR = Fin 0, pair_accuracy = Fin 1\<rparr>),
         (''original'', \<lparr>FMR = Fin 0, FNMR = Fin 1, pair_accuracy = Fin 0\<rparr>),
         (''rotation'', \<lparr>FMR = Fin 0, FNMR = Fin 0, pair_accuracy = Fin 1\<rparr>)]\<rparr>"



section \<open>Per-group metrics: helper lemmas\<close>

lemma mask_sum_rows:
  "mask_sum a b (map f sub) (map h sub) = count_where (\<lambda>r. f r = a \<and> h r = b) sub"
  by (induction sub) (auto simp: mask_sum_def count_where_def)

lemma count_where_cong: "(\<And>r. r \<in> set sub \<Longrightarrow> P r = Q r) \<Longrightarrow> count_where P sub = count_where Q sub"
  unfolding count_where_def by (rule arg_cong[where f=length], rule filter_cong) auto

lemma confusion_rows:
  "confusion E pos sub =
    (count_where (\<lambda>r. predicted_positive E r \<and> label_col r = pos) sub,
     count_where (\<lambda>r. predicted_positive E r \<and> label_col r \<noteq> pos) sub,
     count_where (\<lambda>r. \<not> predicted_positive E r \<and> label_col r \<noteq> pos) sub,
     count_where (\<lambda>r. \<not> predicted_positive E r \<and> label_col r = pos) sub)"
  unfolding confusion_def Let_def y_true_of_def y_pred_of_def mask_sum_rows prod.inject
  by (intro conjI count_where_cong) (simp_all add: predicted_positive_def)

lemma group_loop_Cons:
  "fst (group_loop L E pos ((g, sub) # rest) rng) =
     (g, fst (group_entry L E pos sub rng)) #
       fst (group_loop L E pos rest (snd (group_entry L E pos sub rng)))"
  by (simp add: split_beta Let_def)

lemma group_loop_keys: "map fst (fst (group_loop L E pos gs rng)) = map fst gs"
proof (induction gs arbitrary: rng)
  case Nil
  then show ?case by simp
next
  case (Cons a gs)
  then show ?case by (cases a) (simp only: group_loop_Cons list.map fst_conv)
qed

lemma group_loop_entry:
  "(g, m) \<in> set (fst (group_loop L E pos gs rng)) \<Longrightarrow>
     \<exists>sub r. (g, sub) \<in> set gs \<and> m = fst (group_entry L E pos sub r)"
proof (induction gs arbitrary: rng)
  case Nil
  then show ?case by simp
next
  case (Cons a gs)
  obtain k sub where a: "a = (k, sub)" by (cases a)
  from Cons.prems have "(g, m) = (k, fst (group_entry L E pos sub rng)) \<or>
      (g, m) \<in> set (fst (group_loop L E pos gs (snd (group_entry L E pos sub rng))))"
    unfolding a group_loop_Cons by simp
  then show ?case
  proof
    assume "(g, m) = (k, fst (group_entry L E pos sub rng))"
    then show ?thesis unfolding a by auto
  next
    assume "(g, m) \<in> set (fst (group_loop L E pos gs (snd (group_entry L E pos sub rng))))"
    from Cons.IH[OF this] show ?thesis by auto
  qed
qed

lemma groupby_entry: "(g, sub) \<in> set (groupby df) \<Longrightarrow> sub = rows_of g df \<and> g \<in> set (group_keys df)"
  by (auto simp: groupby_def rows_of_def)

lemma set_map_filter: "set (List.map_filter f xs) = {y. \<exists>x \<in> set xs. f x = Some y}"
  by (induction xs) (auto split: option.splits)

lemma set_group_keys: "set (group_keys df) = {g. \<exists>r \<in> set df. group_col r = Some g}"
  by (simp add: group_keys_def set_map_filter)

lemma distinct_group_keys: "distinct (group_keys df)"
  by (simp add: group_keys_def)

lemma result_keys: "map fst (fst (compute_group_metrics L E df pos rng)) = group_keys df"
  by (simp add: compute_group_metrics_def group_loop_keys groupby_def comp_def)

lemma result_entry:
  assumes "(g, m) \<in> set (fst (compute_group_metrics L E df pos rng))"
  shows "\<exists>r. m = fst (group_entry L E pos (rows_of g df) r)"
proof -
  from assms obtain sub r where "(g, sub) \<in> set (groupby df)" and m: "m = fst (group_entry L E pos sub r)"
    unfolding compute_group_metrics_def by (blast dest: group_loop_entry)
  then have "sub = rows_of g df" by (simp add: groupby_entry)
  with m show ?thesis by blast
qed

lemma group_entry_fields:
  assumes "confusion E pos sub = (tp, fp, tn, fn)"
  shows "tpr (fst (group_entry L E pos sub rng)) = rate tp fn"
    and "fpr (fst (group_entry L E pos sub rng)) = rate fp tn"
    and "tnr (fst (group_entry L E pos sub rng)) = rate tn fp"
    and "fnr (fst (group_entry L E pos sub rng)) = rate fn tp"
    and "precision (fst (group_entry L E pos sub rng)) = rate tp fp"
    and "count (fst (group_entry L E pos sub rng)) = length sub"
  using assms by (simp_all add: group_entry_def Let_def split_beta)

section \<open>Rates with a zero denominator\<close>

text \<open>
  C1. For every group \<open>g\<close> in the result of \<^verbatim>\<open>compute_group_metrics\<close>, with TP, FP, TN
  and FN the numbers of rows of that group that are predicted positive or not (prediction
  at or above the threshold) and labelled positive or not: each of TPR, FPR, TNR, FNR and
  precision is the number 0 when its denominator is zero and the count ratio otherwise.
\<close>

theorem zero_denominator_rates:
  assumes "(g, m) \<in> set (fst (compute_group_metrics L E df pos rng))"
  shows "let rows = rows_of g df;
             TP = count_where (\<lambda>r. predicted_positive E r \<and> label_col r = pos) rows;
             FP = count_where (\<lambda>r. predicted_positive E r \<and> label_col r \<noteq> pos) rows;
             TN = count_where (\<lambda>r. \<not> predicted_positive E r \<and> label_col r \<noteq> pos) rows;
             FN = count_where (\<lambda>r. \<not> predicted_positive E r \<and> label_col r = pos) rows
         in tpr m = (if TP + FN = 0 then 0 else real TP / real (TP + FN))
          \<and> fpr m = (if FP + TN = 0 then 0 else real FP / real (FP + TN))
          \<and> tnr m = (if TN + FP = 0 then 0 else real TN / real (TN + FP))
          \<and> fnr m = (if FN + TP = 0 then 0 else real FN / real (FN + TP))
          \<and> precision m = (if TP + FP = 0 then 0 else real TP / real (TP + FP))"
proof -
  from result_entry[OF assms] obtain r where m: "m = fst (group_entry L E pos (rows_of g df) r)" ..
  show ?thesis
    unfolding Let_def m
    by (simp add: group_entry_fields[OF confusion_rows] rate_def)
qed

theorem zero_denominator_rates_witness:
  "(''A'', \<lparr>count = 2, approval_rate = Fin (1 / 2), approval_rate_ci = None,
      accuracy = Fin (1 / 2), tpr = 0, fpr = 1 / 2, tnr = 1 / 2, fnr = 0,
      precision = 0, recall = 0, f1_score = 0, auc = None\<rparr>)
     \<in> set (fst (compute_group_metrics no_libs (MetricsEngine 0.5 False) demo_table 1 ()))
   \<and> count_where (\<lambda>r. label_col r = 1) (rows_of ''A'' demo_table) = 0"
proof -
  have mem: "(''A'', \<lparr>count = 2, approval_rate = Fin (1 / 2), approval_rate_ci = None,
      accuracy = Fin (1 / 2), tpr = 0, fpr = 1 / 2, tnr = 1 / 2, fnr = 0,
      precision = 0, recall = 0, f1_score = 0, auc = None\<rparr>)
     \<in> set (fst (compute_group_metrics no_libs (MetricsEngine 0.5 False) demo_table 1 ()))"
    by code_simp
  have "count_where (\<lambda>r. label_col r = 1) (rows_of ''A'' demo_table) = 0"
    by (simp add: count_where_def rows_of_def demo_table_def)
  with mem zero_denominator_rates[OF mem] show ?thesis by simp
qed

section \<open>The groups partition the tagged rows\<close>

lemma count_where_filter: "count_where P (filter Q xs) = count_where (\<lambda>r. P r \<and> Q r) xs"
  by (simp add: count_where_def conj_commute)

lemma count_where_disjoint:
  "(\<And>r. r \<in> set xs \<Longrightarrow> \<not> (A r \<and> B r)) \<Longrightarrow>
     count_where A xs + count_where B xs = count_where (\<lambda>r. A r \<or> B r) xs"
  by (induction xs) (auto simp: count_where_def)

lemma count_partition:
  "distinct ks \<Longrightarrow>
     sum_list (map (\<lambda>k. count_where P (filter (\<lambda>r. key r = Some k) xs)) ks)
       = count_where (\<lambda>r. P r \<and> (\<exists>k \<in> set ks. key r = Some k)) xs"
proof (induction ks)
  case Nil
  show ?case by (simp add: count_where_def)
next
  case (Cons k ks)
  have "count_where (\<lambda>r. P r \<and> key r = Some k) xs
          + count_where (\<lambda>r. P r \<and> (\<exists>k' \<in> set ks. key r = Some k')) xs
        = count_where (\<lambda>r. (P r \<and> key r = Some k) \<or> (P r \<and> (\<exists>k' \<in> set ks. key r = Some k'))) xs"
    using Cons.prems by (intro count_where_disjoint) auto
  also have "\<dots> = count_where (\<lambda>r. P r \<and> (\<exists>k' \<in> set (k # ks). key r = Some k')) xs"
    by (intro count_where_cong) auto
  finally show ?case using Cons by (simp add: count_where_filter)
qed

lemma count_partition_keys:
  "sum_list (map (\<lambda>k. count_where P (rows_of k df)) (group_keys df))
     = count_where P (filter (\<lambda>r. group_col r \<noteq> None) df)"
proof -
  have "sum_list (map (\<lambda>k. count_where P (rows_of k df)) (group_keys df))
      = count_where (\<lambda>r. P r \<and> (\<exists>k \<in> set (group_keys df). group_col r = Some k)) df"
    unfolding rows_of_def by (rule count_partition) (rule distinct_group_keys)
  also have "\<dots> = count_where (\<lambda>r. P r \<and> group_col r \<noteq> None) df"
    by (intro count_where_cong) (auto simp: set_group_keys)
  finally show ?thesis by (simp add: count_where_filter)
qed

lemma sum_confusion_map:
  "sum_confusion (map f ks) =
     (sum_list (map (\<lambda>k. fst (f k)) ks), sum_list (map (\<lambda>k. fst (snd (f k))) ks),
      sum_list (map (\<lambda>k. fst (snd (snd (f k)))) ks), sum_list (map (\<lambda>k. snd (snd (snd (f k)))) ks))"
proof (induction ks)
  case Nil
  show ?case by (simp add: sum_confusion_def)
next
  case (Cons k ks)
  obtain a b c d where "f k = (a, b, c, d)" by (cases "f k") auto
  with Cons show ?case by (simp add: sum_confusion_def)
qed

lemma sum_confusion_groups:
  "sum_confusion (map (\<lambda>k. confusion E pos (rows_of k df)) (group_keys df))
     = confusion E pos (filter (\<lambda>r. group_col r \<noteq> None) df)"
  by (simp add: sum_confusion_map confusion_rows count_partition_keys)

lemma map_over_results:
  "map (\<lambda>(g, m). F g) (fst (compute_group_metrics L E df pos rng)) = map F (group_keys df)"
proof -
  have "map (\<lambda>(g, m). F g) (fst (compute_group_metrics L E df pos rng))
        = map F (map fst (fst (compute_group_metrics L E df pos rng)))"
    by (simp add: split_beta comp_def)
  then show ?thesis by (simp only: result_keys)
qed

lemma result_count:
  assumes "(g, m) \<in> set (fst (compute_group_metrics L E df pos rng))"
  shows "count m = count_where (\<lambda>r. group_col r = Some g) df"
proof -
  from result_entry[OF assms] obtain r where "m = fst (group_entry L E pos (rows_of g df) r)" ..
  then show ?thesis
    by (simp add: group_entry_fields(6)[OF confusion_rows] rows_of_def count_where_def)
qed

lemma sum_result_counts:
  "sum_list (map (\<lambda>(g, m). count m) (fst (compute_group_metrics L E df pos rng)))
     = count_where (\<lambda>r. group_col r \<noteq> None) df"
proof -
  have "map (\<lambda>(g, m). count m) (fst (compute_group_metrics L E df pos rng))
      = map (\<lambda>(g, m). count_where (\<lambda>r. True) (rows_of g df)) (fst (compute_group_metrics L E df pos rng))"
    by (rule map_cong[OF refl]) (auto simp: result_count rows_of_def count_where_def)
  also have "\<dots> = map (\<lambda>g. count_where (\<lambda>r. True) (rows_of g df)) (group_keys df)"
    by (rule map_over_results)
  finally show ?thesis
    by (simp add: count_partition_keys) (simp add: count_where_def)
qed

text \<open>
  C2 (as amended). For every table and threshold, the confusion counts that
  \<^verbatim>\<open>compute_group_metrics\<close> works out for its groups (\<open>rows_of g df\<close> is the sub-table of
  group \<open>g\<close>, see \<open>result_entry\<close>) add up to the confusion counts of the rows that carry a
  group tag, each group's \<open>count\<close> is the number of rows with that tag, and the counts add
  up to the number of tagged rows. When every row carries a tag, the sums are the counts of
  the whole table and its length: no tagged row is dropped and none is counted twice.
\<close>

theorem group_counts_sum_to_tagged_rows:
  "let results = fst (compute_group_metrics L E df pos rng)
   in results_confusion E pos df results = confusion E pos (filter (\<lambda>r. group_col r \<noteq> None) df)
    \<and> (\<forall>(g, m) \<in> set results. count m = count_where (\<lambda>r. group_col r = Some g) df)
    \<and> results_count results = count_where (\<lambda>r. group_col r \<noteq> None) df
    \<and> ((\<forall>r \<in> set df. group_col r \<noteq> None) \<longrightarrow>
          results_confusion E pos df results = confusion E pos df \<and> results_count results = length df)"
proof -
  have all: "filter (\<lambda>r. group_col r \<noteq> None) df = df" if "\<forall>r \<in> set df. group_col r \<noteq> None"
    using that by (simp add: filter_id_conv)
  show ?thesis
    unfolding Let_def results_confusion_def results_count_def map_over_results
      sum_confusion_groups sum_result_counts
    by (auto simp: result_count all count_where_def)
qed

theorem group_counts_sum_to_tagged_rows_witness:
  "list_all (\<lambda>r. group_col r \<noteq> None) demo_table
   \<and> results_confusion (MetricsEngine 0.5 False) 1 demo_table
        (fst (compute_group_metrics no_libs (MetricsEngine 0.5 False) demo_table 1 ()))
      = confusion (MetricsEngine 0.5 False) 1 demo_table
   \<and> confusion (MetricsEngine 0.5 False) 1 demo_table = (1, 1, 1, 1)"
proof -
  have tagged: "\<forall>r \<in> set demo_table. group_col r \<noteq> None"
    by (simp add: demo_table_def)
  have "confusion (MetricsEngine 0.5 False) 1 demo_table = (1, 1, 1, 1)"
    by code_simp
  with tagged group_counts_sum_to_tagged_rows[of no_libs "MetricsEngine 0.5 False" demo_table 1 "()"]
  show ?thesis by (simp add: Let_def list_all_iff)
qed

text \<open>
  C2 as stated fails on a table with a row whose group tag is missing: the row is in no
  group, so the group sums miss its true positive and the group counts add up to 2 of 3 rows.
\<close>

theorem group_counts_drop_untagged_rows:
  "results_confusion (MetricsEngine 0.5 False) 1 untagged_table
       (fst (compute_group_metrics no_libs (MetricsEngine 0.5 False) untagged_table 1 ())) = (1, 0, 1, 0)
   \<and> confusion (MetricsEngine 0.5 False) 1 untagged_table = (2, 0, 1, 0)
   \<and> results_count (fst (compute_group_metrics no_libs (MetricsEngine 0.5 False) untagged_table 1 ())) = 2
   \<and> length untagged_table = 3"
  by code_simp

section \<open>Python's max and min\<close>

lemma foldl_max: "foldl (\<lambda>best item. if item > best then item else best) x xs = Max (set (x # xs))"
  for x :: "'a::linorder"
proof -
  have "(\<lambda>best item. if item > best then item else best) = (\<lambda>best item :: 'a. max item best)"
    by (auto simp: fun_eq_iff max_def)
  then show ?thesis
    by (simp only: foldl_conv_fold Max.set_eq_fold)
qed

lemma foldl_min: "foldl (\<lambda>best item. if item < best then item else best) x xs = Min (set (x # xs))"
  for x :: "'a::linorder"
proof -
  have "(\<lambda>best item. if item < best then item else best) = (\<lambda>best item :: 'a. min item best)"
    by (auto simp: fun_eq_iff min_def)
  then show ?thesis
    by (simp only: foldl_conv_fold Min.set_eq_fold)
qed

lemma max_reals_Max: "xs \<noteq> [] \<Longrightarrow> max_reals xs = Inr (Max (set xs))"
  by (cases xs) (simp_all add: max_reals_def foldl_max del: set_simps)

lemma min_reals_Min: "xs \<noteq> [] \<Longrightarrow> min_reals xs = Inr (Min (set xs))"
  by (cases xs) (simp_all add: min_reals_def foldl_min del: set_simps)

lemma foldl_Fin_gt:
  "foldl (\<lambda>best item. if py_gt item best then item else best) (Fin x) (map Fin xs)
     = Fin (foldl (\<lambda>best item. if item > best then item else best) x xs)"
  by (induction xs arbitrary: x) simp_all

lemma foldl_Fin_lt:
  "foldl (\<lambda>best item. if py_lt item best then item else best) (Fin x) (map Fin xs)
     = Fin (foldl (\<lambda>best item. if item < best then item else best) x xs)"
  by (induction xs arbitrary: x) simp_all

lemma max_floats_Max: "xs \<noteq> [] \<Longrightarrow> max_floats (map Fin xs) = Inr (Fin (Max (set xs)))"
  by (cases xs) (simp_all add: max_floats_def foldl_Fin_gt foldl_max del: set_simps)

lemma min_floats_Min: "xs \<noteq> [] \<Longrightarrow> min_floats (map Fin xs) = Inr (Fin (Min (set xs)))"
  by (cases xs) (simp_all add: min_floats_def foldl_Fin_lt foldl_min del: set_simps)

section \<open>Disparity metrics\<close>

lemma sum_list_y_pred: "0 \<le> sum_list (y_pred_of E sub) \<and> sum_list (y_pred_of E sub) \<le> int (length sub)"
  by (induction sub) (auto simp: y_pred_of_def)

lemma rows_of_group_key: "g \<in> set (group_keys df) \<Longrightarrow> rows_of g df \<noteq> []"
  by (auto simp: set_group_keys rows_of_def filter_empty_conv)

lemma result_approval_rate:
  assumes "(g, m) \<in> set (fst (compute_group_metrics L E df pos rng))"
  shows "\<exists>a. approval_rate m = Fin a \<and> 0 \<le> a \<and> a \<le> 1"
proof -
  from result_entry[OF assms] obtain r where m: "m = fst (group_entry L E pos (rows_of g df) r)" ..
  from assms have "g \<in> set (map fst (fst (compute_group_metrics L E df pos rng)))"
    by force
  then have ne: "rows_of g df \<noteq> []"
    unfolding result_keys by (rule rows_of_group_key)
  have "approval_rate m = np_mean (y_pred_of E (rows_of g df))"
    using ne by (simp add: m group_entry_def Let_def split_beta)
  also have "\<dots> = Fin (real_of_int (sum_list (y_pred_of E (rows_of g df))) / real (length (rows_of g df)))"
    using ne by (simp add: np_mean_def y_pred_of_def)
  finally have eq: "approval_rate m
      = Fin (real_of_int (sum_list (y_pred_of E (rows_of g df))) / real (length (rows_of g df)))" .
  have pos: "0 < real (length (rows_of g df))" using ne by simp
  from sum_list_y_pred[of E "rows_of g df"]
  have "0 \<le> real_of_int (sum_list (y_pred_of E (rows_of g df)))"
    and "real_of_int (sum_list (y_pred_of E (rows_of g df))) \<le> real (length (rows_of g df))"
    by linarith+
  with pos have "0 \<le> real_of_int (sum_list (y_pred_of E (rows_of g df))) / real (length (rows_of g df))"
    and "real_of_int (sum_list (y_pred_of E (rows_of g df))) / real (length (rows_of g df)) \<le> 1"
    by simp_all
  with eq show ?thesis by blast
qed

lemma fairness_unfold:
  assumes len: "2 \<le> length gm"
    and ars: "approval_rates_of gm = map Fin ars"
  shows "compute_fairness_metrics gm = Inr
     (let T = set (tprs_of gm); F = set (fprs_of gm);
          ratio = (if Max (set ars) > 0 then Min (set ars) / Max (set ars) else 0)
      in [(''demographic_parity_difference'', Fin (Max (set ars) - Min (set ars))),
          (''demographic_parity_ratio'', Fin ratio),
          (''equal_opportunity_difference'', Fin (Max T - Min T)),
          (''equalized_odds_difference'', Fin (max (Max T - Min T) (Max F - Min F))),
          (''disparate_impact'', Fin ratio)])"
proof -
  from ars have "length ars = length gm" by (metis length_map approval_rates_of_def)
  with len have ne: "ars \<noteq> []" by auto
  from len have gne: "gm \<noteq> []" by auto
  have nlt: "\<not> length gm < 2" using len by simp
  show ?thesis
    unfolding compute_fairness_metrics_def Let_def ars
    by (simp only: nlt if_False max_floats_Max[OF ne] min_floats_Min[OF ne]
          max_reals_Max min_reals_Min gne map_is_Nil_conv not_False_eq_True tprs_of_def fprs_of_def
          and_then.simps py_gt.simps py_sub.simps py_div.simps)
      simp
qed

lemma all_Fin_list:
  "(\<And>x. x \<in> set xs \<Longrightarrow> \<exists>a. f x = Fin a \<and> P a) \<Longrightarrow>
     \<exists>ars. map f xs = map Fin ars \<and> (\<forall>a \<in> set ars. P a)"
proof (induction xs)
  case Nil
  show ?case by simp
next
  case (Cons x xs)
  from Cons.prems[of x] obtain a where a: "f x = Fin a" "P a" by auto
  from Cons.IH Cons.prems obtain ars where ars: "map f xs = map Fin ars" "\<forall>a \<in> set ars. P a"
    by (meson list.set_intros(2))
  have "map f (x # xs) = map Fin (a # ars)" using a ars by simp
  moreover have "\<forall>b \<in> set (a # ars). P b" using a ars by simp
  ultimately show ?case by blast
qed

text \<open>
  Every result of \<^verbatim>\<open>compute_group_metrics\<close> meets the side conditions under which the
  disparity formulas are stated: its approval rates are numbers in \<open>[0, 1]\<close>.
\<close>

lemma engine_results_are_rates:
  "\<exists>ars. approval_rates_of (fst (compute_group_metrics L E df pos rng)) = map Fin ars
         \<and> (\<forall>a \<in> set ars. 0 \<le> a \<and> a \<le> 1)"
  unfolding approval_rates_of_def
  by (rule all_Fin_list) (auto dest: result_approval_rate)

text \<open>
  C3. For a mapping of at least two groups to per-group metrics whose approval rates are
  non-negative numbers (as every rate of \<^verbatim>\<open>compute_group_metrics\<close> is, see
  \<open>engine_results_are_rates\<close>), \<^verbatim>\<open>compute_fairness_metrics\<close> returns exactly: the largest
  minus the smallest approval rate; the smallest divided by the largest approval rate, and
  0 when the largest is 0; the largest minus the smallest TPR; the larger of the TPR gap
  and the FPR gap; and the parity ratio again under \<^verbatim>\<open>disparate_impact\<close>. The
  approval rates, \<open>T\<close> and \<open>F\<close> are read from the \<open>approval_rate\<close>, \<open>tpr\<close> and \<open>fpr\<close> fields
  of the mapping itself.
\<close>

theorem disparity_formulas:
  assumes "2 \<le> length gm"
    and "map (\<lambda>(g, m). approval_rate m) gm = map Fin ars"
    and "\<forall>a \<in> set ars. 0 \<le> a"
  shows "compute_fairness_metrics gm = Inr
     (let T = (\<lambda>(g, m). tpr m) ` set gm; F = (\<lambda>(g, m). fpr m) ` set gm;
          ratio = (if Max (set ars) = 0 then 0 else Min (set ars) / Max (set ars))
      in [(''demographic_parity_difference'', Fin (Max (set ars) - Min (set ars))),
          (''demographic_parity_ratio'', Fin ratio),
          (''equal_opportunity_difference'', Fin (Max T - Min T)),
          (''equalized_odds_difference'', Fin (max (Max T - Min T) (Max F - Min F))),
          (''disparate_impact'', Fin ratio)])"
proof -
  have ars: "approval_rates_of gm = map Fin ars"
    using assms(2) by (simp add: approval_rates_of_def)
  have T: "set (tprs_of gm) = (\<lambda>(g, m). tpr m) ` set gm"
    and F: "set (fprs_of gm) = (\<lambda>(g, m). fpr m) ` set gm"
    by (simp_all add: tprs_of_def fprs_of_def)
  from assms(2) have "length ars = length gm" by (metis length_map)
  with assms(1) have "ars \<noteq> []" by auto
  then have "Max (set ars) \<in> set ars" by (intro Max_in) auto
  with assms(3) have "0 \<le> Max (set ars)" by blast
  then have "(0 < Max (set ars)) = (Max (set ars) \<noteq> 0)" by linarith
  then show ?thesis
    unfolding fairness_unfold[OF assms(1) ars] Let_def T F by simp
qed

theorem disparity_formulas_witness:
  "2 \<le> length odds_metrics
   \<and> map (\<lambda>(g, m). approval_rate m) odds_metrics = map Fin [0.5, 0.2]
   \<and> list_all (\<lambda>a. 0 \<le> a) [0.5, 0.2 :: real]
   \<and> map (\<lambda>(g, m). tpr m) odds_metrics = [0.8, 0.7]
   \<and> map (\<lambda>(g, m). fpr m) odds_metrics = [0.25, 0.05]
   \<and> compute_fairness_metrics odds_metrics = Inr
       [(''demographic_parity_difference'', Fin 0.3),
        (''demographic_parity_ratio'', Fin 0.4),
        (''equal_opportunity_difference'', Fin 0.1),
        (''equalized_odds_difference'', Fin 0.2),
        (''disparate_impact'', Fin 0.4)]"
proof -
  have h1: "2 \<le> length odds_metrics"
    by (simp add: odds_metrics_def)
  have h2: "map (\<lambda>(g, m). approval_rate m) odds_metrics = map Fin [0.5, 0.2]"
    by (simp add: odds_metrics_def)
  have h3: "\<forall>a \<in> set [0.5, 0.2 :: real]. 0 \<le> a"
    by simp
  have t: "map (\<lambda>(g, m). tpr m) odds_metrics = [0.8, 0.7]"
    and f: "map (\<lambda>(g, m). fpr m) odds_metrics = [0.25, 0.05]"
    by (simp_all add: odds_metrics_def)
  have "(\<lambda>(g, m). tpr m) ` set odds_metrics = {0.8, 0.7}"
    and "(\<lambda>(g, m). fpr m) ` set odds_metrics = {0.25, 0.05}"
    by (simp_all add: odds_metrics_def)
  with h1 h2 h3 t f disparity_formulas[OF h1 h2 h3] show ?thesis
    by (simp add: Let_def)
qed

text \<open>
  C6 (as amended). For at least two groups whose approval rates lie in \<open>[0, 1]\<close>, the
  parity ratio returned lies in \<open>[0, 1]\<close> and is the smallest approval rate divided by the
  largest when the largest is positive and 0 when the largest is 0. When all groups have the
  same approval rate, the parity difference is 0, and the ratio is 1 if that rate is
  positive and 0 if it is 0.
\<close>

theorem parity_ratio_range:
  assumes "2 \<le> length gm"
    and "approval_rates_of gm = map Fin ars"
    and "\<forall>a \<in> set ars. 0 \<le> a \<and> a \<le> 1"
  shows "\<exists>fm d ratio. compute_fairness_metrics gm = Inr fm
     \<and> map_of fm ''demographic_parity_difference'' = Some (Fin d)
     \<and> map_of fm ''demographic_parity_ratio'' = Some (Fin ratio)
     \<and> 0 \<le> ratio \<and> ratio \<le> 1
     \<and> ratio = (if Max (set ars) > 0 then Min (set ars) / Max (set ars) else 0)
     \<and> ((\<forall>a \<in> set ars. \<forall>b \<in> set ars. a = b) \<longrightarrow>
           d = 0 \<and> ratio = (if Max (set ars) > 0 then 1 else 0))"
proof -
  define hi where "hi = Max (set ars)"
  define lo where "lo = Min (set ars)"
  define ratio where "ratio = (if hi > 0 then lo / hi else 0)"
  from assms(2) have "length ars = length gm" by (metis length_map approval_rates_of_def)
  with assms(1) have ne: "set ars \<noteq> {}" by auto
  have hi_in: "hi \<in> set ars" and lo_in: "lo \<in> set ars"
    unfolding hi_def lo_def using ne by (simp_all add: Max_in Min_in)
  have lo_hi: "lo \<le> hi"
    unfolding hi_def lo_def using ne by (simp add: Min_le_iff)
  from assms(3) lo_in have lo0: "0 \<le> lo" by blast
  have r0: "0 \<le> ratio" using lo0 by (simp add: ratio_def)
  have r1: "ratio \<le> 1" using lo_hi by (simp add: ratio_def)
  have same: "hi - lo = 0 \<and> ratio = (if hi > 0 then 1 else 0)"
    if "\<forall>a \<in> set ars. \<forall>b \<in> set ars. a = b"
  proof -
    from that hi_in lo_in have "lo = hi" by blast
    then show ?thesis by (simp add: ratio_def)
  qed
  have "compute_fairness_metrics gm = Inr
     [(''demographic_parity_difference'', Fin (hi - lo)),
      (''demographic_parity_ratio'', Fin ratio),
      (''equal_opportunity_difference'',
         Fin (Max (set (tprs_of gm)) - Min (set (tprs_of gm)))),
      (''equalized_odds_difference'',
         Fin (max (Max (set (tprs_of gm)) - Min (set (tprs_of gm)))
                  (Max (set (fprs_of gm)) - Min (set (fprs_of gm))))),
      (''disparate_impact'', Fin ratio)]"
    unfolding fairness_unfold[OF assms(1,2)] Let_def hi_def lo_def ratio_def ..
  moreover have "map_of [(''demographic_parity_difference'', Fin (hi - lo)),
      (''demographic_parity_ratio'', Fin ratio),
      (''equal_opportunity_difference'',
         Fin (Max (set (tprs_of gm)) - Min (set (tprs_of gm)))),
      (''equalized_odds_difference'',
         Fin (max (Max (set (tprs_of gm)) - Min (set (tprs_of gm)))
                  (Max (set (fprs_of gm)) - Min (set (fprs_of gm))))),
      (''disparate_impact'', Fin ratio)] ''demographic_parity_difference'' = Some (Fin (hi - lo))"
    by simp
  moreover have "map_of [(''demographic_parity_difference'', Fin (hi - lo)),
      (''demographic_parity_ratio'', Fin ratio),
      (''equal_opportunity_difference'',
         Fin (Max (set (tprs_of gm)) - Min (set (tprs_of gm)))),
      (''equalized_odds_difference'',
         Fin (max (Max (set (tprs_of gm)) - Min (set (tprs_of gm)))
                  (Max (set (fprs_of gm)) - Min (set (fprs_of gm))))),
      (''disparate_impact'', Fin ratio)] ''demographic_parity_ratio'' = Some (Fin ratio)"
    by simp
  ultimately show ?thesis
    using r0 r1 same unfolding ratio_def hi_def lo_def by blast
qed

theorem parity_ratio_range_witness:
  "2 \<le> length scenario_metrics
   \<and> approval_rates_of scenario_metrics = map Fin [0.5, 0.2]
   \<and> list_all (\<lambda>a. 0 \<le> a \<and> a \<le> 1) [0.5, 0.2 :: real]
   \<and> (\<exists>fm ratio. compute_fairness_metrics scenario_metrics = Inr fm
         \<and> map_of fm ''demographic_parity_ratio'' = Some (Fin ratio) \<and> 0 \<le> ratio \<and> ratio \<le> 1)"
proof -
  have h1: "2 \<le> length scenario_metrics"
    by (simp add: scenario_metrics_def)
  have h2: "approval_rates_of scenario_metrics = map Fin [0.5, 0.2]"
    by (simp add: scenario_metrics_def approval_rates_of_def)
  have h3: "\<forall>a \<in> set [0.5, 0.2 :: real]. 0 \<le> a \<and> a \<le> 1"
    by simp
  from parity_ratio_range[OF h1 h2 h3] h1 h2 show ?thesis by auto
qed

text \<open>
  C6 as stated fails when nobody is approved in any group: the approval rates are equal
  (both 0), the difference is 0, and the ratio returned is 0, not 1.
\<close>

theorem parity_ratio_zero_when_none_approved:
  "approval_rates_of
      (fst (compute_group_metrics no_libs (MetricsEngine 0.5 False) rejected_table 1 ())) = [Fin 0, Fin 0]
   \<and> compute_fairness_metrics (fst (compute_group_metrics no_libs (MetricsEngine 0.5 False) rejected_table 1 ()))
      = Inr [(''demographic_parity_difference'', Fin 0),
             (''demographic_parity_ratio'', Fin 0),
             (''equal_opportunity_difference'', Fin 0),
             (''equalized_odds_difference'', Fin 0),
             (''disparate_impact'', Fin 0)]"
  by code_simp

section \<open>Fewer than two groups\<close>

lemma fairness_of_short_mapping: "length gm < 2 \<Longrightarrow> compute_fairness_metrics gm = Inr []"
  by (simp add: compute_fairness_metrics_def)

text \<open>
  C9. Given a mapping with fewer than two groups, \<^verbatim>\<open>compute_fairness_metrics\<close> returns
  the empty dictionary; it does not raise.
\<close>

theorem no_disparity_below_two_groups:
  "length gm < 2 \<Longrightarrow> compute_fairness_metrics gm = Inr []"
  by (rule fairness_of_short_mapping)

theorem no_disparity_below_two_groups_witness:
  "length (take 1 scenario_metrics) < 2
   \<and> compute_fairness_metrics (take 1 scenario_metrics) = Inr []"
  using no_disparity_below_two_groups[of "take 1 scenario_metrics"] by simp

lemma identify_flags_empty: "identify_flags fmt [] = []"
  by (simp add: identify_flags_def dict_get_def)

lemma run_evaluation_success:
  assumes "fst (run_evaluation L fmt score th pos csv rng) = Inr s"
  shows "\<exists>fm. compute_fairness_metrics (group_summary s) = Inr fm
           \<and> fairness_metrics s = fm \<and> flags s = identify_flags fmt fm
           \<and> assessment s = assessment_of (flags s)"
  using assms
  by (auto simp: run_evaluation_def evaluate_fairness_def Let_def split_beta
      split: sum.splits elim!: and_then.elims)

text \<open>
  C10. When an evaluation run succeeds and its table has exactly one group, the disparity
  set is empty, \<^verbatim>\<open>identify_flags\<close> returns no flag, and the assessment (in the returned
  summary, and by the same rule in \<^verbatim>\<open>generate_summary_json\<close>) is \<^verbatim>\<open>'PASS'\<close>.
\<close>

theorem single_group_passes:
  assumes "fst (run_evaluation L fmt score th pos csv rng) = Inr s"
    and "length (group_summary s) = 1"
  shows "fairness_metrics s = [] \<and> identify_flags fmt (fairness_metrics s) = []
       \<and> flags s = [] \<and> assessment s = ''PASS'' \<and> assessment_of (flags s) = ''PASS''"
proof -
  from run_evaluation_success[OF assms(1)] obtain fm where
    fm: "compute_fairness_metrics (group_summary s) = Inr fm" "fairness_metrics s = fm"
      "flags s = identify_flags fmt fm" "assessment s = assessment_of (flags s)"
    by blast
  from assms(2) have "compute_fairness_metrics (group_summary s) = Inr []"
    by (intro fairness_of_short_mapping) simp
  with fm(1) have "fm = []" by simp
  with fm show ?thesis
    by (simp add: identify_flags_empty assessment_of_def)
qed

theorem single_group_passes_witness:
  "fst (run_evaluation no_libs demo_fmt demo_scores 0.5 1 single_group_csv ()) = Inr single_group_summary
   \<and> length (group_summary single_group_summary) = 1
   \<and> flags single_group_summary = []
   \<and> assessment single_group_summary = ''PASS''"
proof -
  have run: "fst (run_evaluation no_libs demo_fmt demo_scores 0.5 1 single_group_csv ()) = Inr single_group_summary"
    by code_simp
  have one: "length (group_summary single_group_summary) = 1"
    by (simp add: single_group_summary_def)
  from single_group_passes[OF run one] run one show ?thesis by simp
qed

section \<open>Threshold monotonicity\<close>

lemma run_inference_rows:
  assumes "run_inference score th csv = Inr df"
  shows "\<exists>probs. score csv = Some probs \<and> length probs = length csv
           \<and> df = map (scored th) (zip csv probs)"
proof -
  from assms obtain probs where s: "score csv = Some probs"
    by (auto simp: run_inference_def split: option.splits)
  with assms have len: "length probs = length csv"
    and df: "df = map (\<lambda>(s, p, y). \<lparr>label_col = label_col s, group_col = group_col s,
                                       prob_col = p, pred_col = y\<rparr>)
                    (zip csv (zip probs (map (\<lambda>p. if p \<ge> th then 1 else 0) probs)))"
    by (auto simp: run_inference_def predict_def split: if_splits)
  have "zip probs (map (\<lambda>p. if p \<ge> th then 1 else 0 :: int) probs)
          = map (\<lambda>p. (p, if p \<ge> th then 1 else 0)) probs"
    by (induction probs) auto
  then have "zip csv (zip probs (map (\<lambda>p. if p \<ge> th then 1 else 0 :: int) probs))
          = map (\<lambda>(s, p). (s, p, if p \<ge> th then 1 else 0)) (zip csv probs)"
    by (simp add: zip_map2)
  with df have "df = map (scored th) (zip csv probs)"
    by (simp add: scored_def split_beta comp_def)
  with s len show ?thesis by blast
qed

lemma count_where_map: "count_where P (map f xs) = count_where (\<lambda>x. P (f x)) xs"
  by (simp add: count_where_def filter_map comp_def)

lemma rows_of_scored:
  "rows_of g (map (scored th) xs) = map (scored th) (filter (\<lambda>sp. group_col (fst sp) = Some g) xs)"
  by (simp add: rows_of_def filter_map comp_def scored_def)

lemma count_where_mono:
  "(\<And>r. r \<in> set xs \<Longrightarrow> P r \<Longrightarrow> Q r) \<Longrightarrow> count_where P xs \<le> count_where Q xs"
  by (induction xs) (auto simp: count_where_def)

lemma count_where_split:
  "count_where (\<lambda>r. A r \<and> B r) xs + count_where (\<lambda>r. \<not> A r \<and> B r) xs = count_where B xs"
  by (induction xs) (auto simp: count_where_def)

lemma rate_mono:
  assumes "a2 \<le> a1" and "a1 + b1 = a2 + b2"
  shows "rate a2 b2 \<le> rate a1 b1"
proof (cases "a1 + b1 > 0")
  case True
  with assms show ?thesis
    by (simp add: rate_def divide_right_mono)
next
  case False
  with assms show ?thesis by (simp add: rate_def)
qed

text \<open>
  The label the engine works with for a row scored at threshold \<open>th\<close>: the prediction
  column, thresholded again by \<^verbatim>\<open>compute_group_metrics\<close>.
\<close>

lemma predicted_positive_scored:
  "predicted_positive (MetricsEngine th b) (scored th sp)
     \<longleftrightarrow> (if snd sp \<ge> th then th \<le> 1 else th \<le> 0)"
  by (simp add: predicted_positive_def MetricsEngine_def scored_def)

lemma predicted_positive_antimono:
  assumes "th1 \<le> th2" and "predicted_positive (MetricsEngine th2 b2) (scored th2 sp)"
  shows "predicted_positive (MetricsEngine th1 b1) (scored th1 sp)"
  using assms unfolding predicted_positive_scored by (auto split: if_splits)

lemma scored_rates_antimono:
  fixes xs :: "(('l, 'g::linorder) sample \<times> real) list" and pos :: 'l
  assumes th: "th1 \<le> th2"
    and m1: "(g, m1) \<in> set (fst (compute_group_metrics L (MetricsEngine th1 b1) (map (scored th1) xs) pos rng1))"
    and m2: "(g, m2) \<in> set (fst (compute_group_metrics L (MetricsEngine th2 b2) (map (scored th2) xs) pos rng2))"
  shows "tpr m2 \<le> tpr m1 \<and> fpr m2 \<le> fpr m1"
proof -
  define ys where "ys = filter (\<lambda>sp. group_col (fst sp) = Some g) xs"
  define E1 where "E1 = MetricsEngine th1 b1"
  define E2 where "E2 = MetricsEngine th2 b2"
  define pp where "pp = (\<lambda>E th (sp :: ('l, 'g) sample \<times> real). predicted_positive E (scored th sp))"
  define lab where "lab = (\<lambda>sp :: ('l, 'g) sample \<times> real. label_col (fst sp) = pos)"
  have lab_scored: "\<And>th sp. (label_col (scored th sp) = pos) = lab sp"
    by (simp add: lab_def scored_def)
  from result_entry[OF m1] obtain r1 where
    e1: "m1 = fst (group_entry L E1 pos (map (scored th1) ys) r1)"
    unfolding rows_of_scored ys_def E1_def by blast
  from result_entry[OF m2] obtain r2 where
    e2: "m2 = fst (group_entry L E2 pos (map (scored th2) ys) r2)"
    unfolding rows_of_scored ys_def E2_def by blast
  have anti: "pp E2 th2 sp \<Longrightarrow> pp E1 th1 sp" for sp
    unfolding pp_def E1_def E2_def by (rule predicted_positive_antimono[OF th])
  have tpr1: "tpr m1 = rate (count_where (\<lambda>sp. pp E1 th1 sp \<and> lab sp) ys)
                            (count_where (\<lambda>sp. \<not> pp E1 th1 sp \<and> lab sp) ys)"
    unfolding e1 by (simp add: group_entry_fields(1)[OF confusion_rows] count_where_map lab_scored pp_def)
  have tpr2: "tpr m2 = rate (count_where (\<lambda>sp. pp E2 th2 sp \<and> lab sp) ys)
                            (count_where (\<lambda>sp. \<not> pp E2 th2 sp \<and> lab sp) ys)"
    unfolding e2 by (simp add: group_entry_fields(1)[OF confusion_rows] count_where_map lab_scored pp_def)
  have fpr1: "fpr m1 = rate (count_where (\<lambda>sp. pp E1 th1 sp \<and> \<not> lab sp) ys)
                            (count_where (\<lambda>sp. \<not> pp E1 th1 sp \<and> \<not> lab sp) ys)"
    unfolding e1 by (simp add: group_entry_fields(2)[OF confusion_rows] count_where_map lab_scored pp_def)
  have fpr2: "fpr m2 = rate (count_where (\<lambda>sp. pp E2 th2 sp \<and> \<not> lab sp) ys)
                            (count_where (\<lambda>sp. \<not> pp E2 th2 sp \<and> \<not> lab sp) ys)"
    unfolding e2 by (simp add: group_entry_fields(2)[OF confusion_rows] count_where_map lab_scored pp_def)
  have "tpr m2 \<le> tpr m1"
    unfolding tpr1 tpr2
    by (rule rate_mono) (auto intro: count_where_mono anti simp: count_where_split)
  moreover have "fpr m2 \<le> fpr m1"
    unfolding fpr1 fpr2
    by (rule rate_mono) (auto intro: count_where_mono anti simp: count_where_split)
  ultimately show ?thesis ..
qed

lemma group_keys_scored: "group_keys (map (scored th1) xs) = group_keys (map (scored th2) xs)"
proof -
  have "List.map_filter group_col (map (scored th) xs) = List.map_filter (\<lambda>sp. group_col (fst sp)) xs" for th
    by (induction xs) (auto simp: scored_def split: option.splits)
  then show ?thesis by (simp add: group_keys_def)
qed

text \<open>
  C5. Fix a table and two thresholds \<open>th1 \<le> th2\<close>. Scoring the table at each threshold
  (\<^verbatim>\<open>run_inference\<close>: the prediction is 1 exactly when the probability is at or above the
  threshold, the boundary counting as positive) and computing the group metrics with the
  engine at the same threshold gives, for each group, a TPR and an FPR at \<open>th2\<close> that are at
  most those at \<open>th1\<close>.
\<close>

theorem threshold_monotonicity:
  fixes csv :: "('l, 'g::linorder) sample list" and pos :: 'l
  assumes "th1 \<le> th2"
    and "run_inference score th1 csv = Inr df1"
    and "run_inference score th2 csv = Inr df2"
    and "(g, m1) \<in> set (fst (compute_group_metrics L (MetricsEngine th1 b1) df1 pos rng1))"
    and "(g, m2) \<in> set (fst (compute_group_metrics L (MetricsEngine th2 b2) df2 pos rng2))"
  shows "tpr m2 \<le> tpr m1 \<and> fpr m2 \<le> fpr m1
       \<and> (\<forall>r \<in> set df1. pred_col r = (if prob_col r \<ge> th1 then 1 else 0))
       \<and> (\<forall>r \<in> set df2. pred_col r = (if prob_col r \<ge> th2 then 1 else 0))"
proof -
  from run_inference_rows[OF assms(2)] obtain probs where
    p1: "score csv = Some probs" and d1: "df1 = map (scored th1) (zip csv probs)"
    by blast
  from run_inference_rows[OF assms(3)] p1 have d2: "df2 = map (scored th2) (zip csv probs)"
    by auto
  have "tpr m2 \<le> tpr m1 \<and> fpr m2 \<le> fpr m1"
    using assms(4,5) unfolding d1 d2 by (rule scored_rates_antimono[OF assms(1)])
  moreover have "\<forall>r \<in> set df1. pred_col r = (if prob_col r \<ge> th1 then 1 else 0)"
    unfolding d1 by (auto simp: scored_def)
  moreover have "\<forall>r \<in> set df2. pred_col r = (if prob_col r \<ge> th2 then 1 else 0)"
    unfolding d2 by (auto simp: scored_def)
  ultimately show ?thesis by blast
qed

theorem threshold_monotonicity_witness:
  "(0.5 :: real) \<le> 0.7
   \<and> run_inference demo_probabilities 0.5 demo_csv = Inr (demo_scored 0.5)
   \<and> run_inference demo_probabilities 0.7 demo_csv = Inr (demo_scored 0.7)
   \<and> (''A'', group_A_low) \<in> set (fst (compute_group_metrics no_libs (MetricsEngine 0.5 False) (demo_scored 0.5) 1 ()))
   \<and> (''A'', group_A_high) \<in> set (fst (compute_group_metrics no_libs (MetricsEngine 0.7 False) (demo_scored 0.7) 1 ()))
   \<and> tpr group_A_high \<le> tpr group_A_low \<and> fpr group_A_high \<le> fpr group_A_low
   \<and> fpr group_A_low = 1 \<and> fpr group_A_high = 0"
proof -
  have h1: "(0.5 :: real) \<le> 0.7" by simp
  have h2: "run_inference demo_probabilities 0.5 demo_csv = Inr (demo_scored 0.5)"
    by code_simp
  have h3: "run_inference demo_probabilities 0.7 demo_csv = Inr (demo_scored 0.7)"
    by code_simp
  have h4: "(''A'', group_A_low)
      \<in> set (fst (compute_group_metrics no_libs (MetricsEngine 0.5 False) (demo_scored 0.5) 1 ()))"
    by code_simp
  have h5: "(''A'', group_A_high)
      \<in> set (fst (compute_group_metrics no_libs (MetricsEngine 0.7 False) (demo_scored 0.7) 1 ()))"
    by code_simp
  from threshold_monotonicity[OF h1 h2 h3 h4 h5] h1 h2 h3 h4 h5 show ?thesis
    by (simp add: group_A_low_def group_A_high_def)
qed

section \<open>The threshold is never validated\<close>

lemma py_best_nonempty: "xs \<noteq> [] \<Longrightarrow> \<exists>v. py_best better xs = Inr v"
  by (cases xs) simp_all

lemma compute_fairness_metrics_total: "\<exists>fm. compute_fairness_metrics gm = Inr fm"
proof (cases "length gm < 2")
  case True
  then show ?thesis by (simp add: compute_fairness_metrics_def)
next
  case False
  then have ne: "approval_rates_of gm \<noteq> []" "tprs_of gm \<noteq> []" "fprs_of gm \<noteq> []"
    by (auto simp: approval_rates_of_def tprs_of_def fprs_of_def)
  from py_best_nonempty[OF ne(1)] obtain a1 a2 where
    a: "max_floats (approval_rates_of gm) = Inr a1" "min_floats (approval_rates_of gm) = Inr a2"
    unfolding max_floats_def min_floats_def by blast
  from py_best_nonempty[OF ne(2)] obtain t1 t2 where
    t: "max_reals (tprs_of gm) = Inr t1" "min_reals (tprs_of gm) = Inr t2"
    unfolding max_reals_def min_reals_def by blast
  from py_best_nonempty[OF ne(3)] obtain f1 f2 where
    f: "max_reals (fprs_of gm) = Inr f1" "min_reals (fprs_of gm) = Inr f2"
    unfolding max_reals_def min_reals_def by blast
  show ?thesis
    using False by (simp add: compute_fairness_metrics_def Let_def a t f)
qed

lemma run_evaluation_returns:
  assumes "csv \<noteq> []" and "score csv = Some probs" and "length probs = length csv"
  shows "\<exists>s. fst (run_evaluation L fmt score th pos csv rng) = Inr s \<and> status s = ''success''"
proof -
  from assms have ri: "\<exists>df. run_inference score th csv = Inr df"
    by (simp add: run_inference_def predict_def)
  then obtain df where df: "run_inference score th csv = Inr df" ..
  obtain fm where fm: "compute_fairness_metrics
      (fst (compute_group_metrics L (MetricsEngine th True) df pos rng)) = Inr fm"
    using compute_fairness_metrics_total by blast
  show ?thesis
    using assms(1) df fm
    by (simp add: run_evaluation_def validate_csv_def evaluate_fairness_def Let_def split_beta)
qed

text \<open>
  C4 (as amended). Neither \<^verbatim>\<open>MetricsEngine\<close> nor the evaluator checks the threshold, and
  the error values of the model (the exceptions of the source) include no threshold error.
  For every threshold, inside \<open>[0, 1]\<close> or not, \<^verbatim>\<open>compute_group_metrics\<close> returns metrics
  for exactly the groups of the table, and an evaluation run on a non-empty table whose
  scoring succeeds returns a summary with status \<^verbatim>\<open>'success'\<close>.
\<close>

theorem threshold_never_rejected:
  "map fst (fst (compute_group_metrics L (MetricsEngine th b) df pos rng)) = group_keys df
   \<and> (csv \<noteq> [] \<and> score csv = Some probs \<and> length probs = length csv \<longrightarrow>
        (\<exists>s. fst (run_evaluation L fmt score th pos csv rng) = Inr s \<and> status s = ''success''))"
  using run_evaluation_returns[of csv score probs L fmt th pos rng]
  by (simp add: result_keys)

theorem threshold_never_rejected_witness:
  "demo_csv \<noteq> [] \<and> demo_probabilities demo_csv = Some [0.7, 0.6, 0.9, 0.2]
   \<and> length [0.7, 0.6, 0.9, 0.2 :: real] = length demo_csv
   \<and> (\<exists>s. fst (run_evaluation no_libs demo_fmt demo_probabilities (- 1) 1 demo_csv ()) = Inr s
          \<and> status s = ''success'')"
proof -
  have h: "demo_csv \<noteq> []" "demo_probabilities demo_csv = Some [0.7, 0.6, 0.9, 0.2]"
    "length [0.7, 0.6, 0.9, 0.2 :: real] = length demo_csv"
    by (simp_all add: demo_csv_def demo_probabilities_def)
  from threshold_never_rejected[of no_libs "- 1" True "[]" "1 :: int" "()" demo_csv demo_probabilities
      "[0.7, 0.6, 0.9, 0.2]" demo_fmt] h
  show ?thesis by blast
qed

text \<open>
  C4 as stated fails: at threshold 2, outside \<open>[0, 1]\<close>, the run raises nothing and returns
  a summary (every row rejected).
\<close>

theorem threshold_two_accepted:
  "fst (run_evaluation no_libs demo_fmt demo_probabilities 2 1 demo_csv ()) = Inr out_of_range_summary
   \<and> status out_of_range_summary = ''success''"
  by code_simp

section \<open>The bootstrap and the generator\<close>

lemma group_entry_without_ci:
  "(fst (group_entry L E pos sub r1))\<lparr>approval_rate_ci := None\<rparr>
     = (fst (group_entry L E pos sub r2))\<lparr>approval_rate_ci := None\<rparr>"
  by (simp add: group_entry_def Let_def split_beta)

lemma group_loop_without_ci:
  "without_ci (fst (group_loop L E pos gs r1)) = without_ci (fst (group_loop L E pos gs r2))"
proof (induction gs arbitrary: r1 r2)
  case Nil
  show ?case by simp
next
  case (Cons a gs)
  obtain g sub where a: "a = (g, sub)" by (cases a)
  show ?case
    unfolding a group_loop_Cons
    using Cons.IH[of "snd (group_entry L E pos sub r1)" "snd (group_entry L E pos sub r2)"]
      group_entry_without_ci[of L E pos sub r1 r2]
    by (simp add: without_ci_def)
qed

lemma group_entry_disabled:
  "\<not> bootstrap_ci_enabled E \<Longrightarrow> snd (group_entry L E pos sub r) = r
     \<and> fst (group_entry L E pos sub r) = fst (group_entry L E pos sub r')"
  by (simp add: group_entry_def Let_def split_beta)

lemma group_loop_disabled:
  "\<not> bootstrap_ci_enabled E \<Longrightarrow>
     group_loop L E pos gs r = (fst (group_loop L E pos gs r'), r)"
proof (induction gs arbitrary: r r')
  case Nil
  show ?case by simp
next
  case (Cons a gs)
  obtain g sub where a: "a = (g, sub)" by (cases a)
  from Cons.prems group_entry_disabled[of E L pos sub r r']
  have e: "snd (group_entry L E pos sub r) = r"
    "fst (group_entry L E pos sub r) = fst (group_entry L E pos sub r')"
    by simp_all
  from Cons.prems group_entry_disabled[of E L pos sub r' r']
  have e': "snd (group_entry L E pos sub r') = r'" by simp
  from Cons.IH[OF Cons.prems, of r r'] show ?case
    unfolding a by (simp add: split_beta Let_def prod_eq_iff e e')
qed

lemma lists_without_ci:
  "approval_rates_of (without_ci results) = approval_rates_of results"
  "tprs_of (without_ci results) = tprs_of results"
  "fprs_of (without_ci results) = fprs_of results"
  "length (without_ci results) = length results"
  by (simp_all add: approval_rates_of_def tprs_of_def fprs_of_def without_ci_def comp_def split_beta)

lemma fairness_without_ci: "compute_fairness_metrics (without_ci results) = compute_fairness_metrics results"
  unfolding compute_fairness_metrics_def lists_without_ci ..

text \<open>
  C8 (as amended). \<^verbatim>\<open>bootstrap_ci\<close> has no seed parameter; it draws from the process-wide
  generator, so its bounds are a function of the data, the statistic, the bootstrap count,
  \<open>alpha\<close> and the state of the generator at the call. The bootstrap interval is the only
  thing in the engine's results that the generator reaches: for any two generator states,
  the per-group metrics agree in every field other than \<open>approval_rate_ci\<close>, the disparity
  metrics are the same, and with the bootstrap switched off the whole result is the same
  and the generator is left as it was.
\<close>

theorem generator_reaches_only_the_interval:
  "without_ci (fst (compute_group_metrics L E df pos rng1))
     = without_ci (fst (compute_group_metrics L E df pos rng2))
   \<and> compute_fairness_metrics (fst (compute_group_metrics L E df pos rng1))
     = compute_fairness_metrics (fst (compute_group_metrics L E df pos rng2))
   \<and> (\<not> bootstrap_ci_enabled E \<longrightarrow>
        compute_group_metrics L E df pos rng1 = (fst (compute_group_metrics L E df pos rng2), rng1))"
proof -
  have a: "without_ci (fst (compute_group_metrics L E df pos rng1))
     = without_ci (fst (compute_group_metrics L E df pos rng2))"
    unfolding compute_group_metrics_def by (rule group_loop_without_ci)
  have "compute_fairness_metrics (fst (compute_group_metrics L E df pos rng1))
     = compute_fairness_metrics (without_ci (fst (compute_group_metrics L E df pos rng1)))"
    by (simp only: fairness_without_ci)
  also have "\<dots> = compute_fairness_metrics (fst (compute_group_metrics L E df pos rng2))"
    unfolding a by (simp only: fairness_without_ci)
  finally have b: "compute_fairness_metrics (fst (compute_group_metrics L E df pos rng1))
     = compute_fairness_metrics (fst (compute_group_metrics L E df pos rng2))" .
  have c: "compute_group_metrics L E df pos rng1 = (fst (compute_group_metrics L E df pos rng2), rng1)"
    if "\<not> bootstrap_ci_enabled E"
    unfolding compute_group_metrics_def by (rule group_loop_disabled[OF that])
  from a b c show ?thesis by blast
qed

theorem generator_reaches_only_the_interval_witness:
  "\<not> bootstrap_ci_enabled (MetricsEngine 0.5 False)
   \<and> compute_group_metrics tape_libs (MetricsEngine 0.5 False) demo_table 1 [0, 1]
      = (fst (compute_group_metrics tape_libs (MetricsEngine 0.5 False) demo_table 1 [1, 0]), [0, 1])"
proof -
  have off: "\<not> bootstrap_ci_enabled (MetricsEngine 0.5 False)"
    by (simp add: MetricsEngine_def)
  from generator_reaches_only_the_interval[of tape_libs "MetricsEngine 0.5 False" demo_table 1 "[0, 1]" "[1, 0]"]
    off show ?thesis by blast
qed

text \<open>
  C8 as stated fails: two invocations of \<^verbatim>\<open>bootstrap_ci\<close> with the same data, statistic,
  bootstrap count and \<open>alpha\<close> return different bounds when the generator is in different
  states, and no argument of the function fixes that state.
\<close>

theorem bootstrap_bounds_follow_generator_state:
  "fst (bootstrap_ci tape_choice percentile_linear [1, 0, 1, 1] np_mean 2 0.05 [0, 0, 0, 0, 2, 2, 2, 2])
     = (Fin 1, Fin 1)
   \<and> fst (bootstrap_ci tape_choice percentile_linear [1, 0, 1, 1] np_mean 2 0.05 [1, 1, 1, 1, 0, 1, 2, 3])
     = (Fin (3 / 160), Fin (117 / 160))"
  by code_simp

section \<open>The pairing loop of face_bias_evaluator.py\<close>

lemma aug_loop_all:
  assumes "map (\<lambda>aug. get_embedding env (apply_augmentation env img aug)) augs = map Some embs"
    and "list_all (\<lambda>e. \<not> all_zero e) embs"
  shows "aug_loop env th grp img orig_emb augs results
           = (results @ map (pair_of env th grp orig_emb) (zip augs embs), True)"
  using assms
proof (induction augs arbitrary: embs results)
  case Nil
  then show ?case by simp
next
  case (Cons aug augs)
  then obtain e es where embs: "embs = e # es" by (cases embs) auto
  with Cons.prems have e: "get_embedding env (apply_augmentation env img aug) = Some e"
    and rest: "map (\<lambda>aug. get_embedding env (apply_augmentation env img aug)) augs = map Some es"
    and nz: "\<not> all_zero e" and nzs: "list_all (\<lambda>e. \<not> all_zero e) es"
    by simp_all
  show ?case
    unfolding embs
    by (simp add: e nz Let_def Cons.IH[OF rest nzs] add_def pair_of_def)
qed

lemma aug_loop_labels:
  "list_all (\<lambda>p. label p = 1) results \<Longrightarrow>
     list_all (\<lambda>p. label p = 1) (fst (aug_loop env th grp img orig_emb augs results))"
  by (induction augs arbitrary: results) (auto simp: Let_def add_def split: option.splits)

lemma process_image_labels:
  "list_all (\<lambda>p. label p = 1) (fst st) \<Longrightarrow>
     list_all (\<lambda>p. label p = 1) (fst (process_image env th augs grp file st))"
  using aug_loop_labels[of "fst st" env th grp _ _ "''original'' # augs"]
  by (auto simp: process_image_def Let_def split_beta split: option.splits simp del: aug_loop.simps)

lemma foldl_images_labels:
  "list_all (\<lambda>p. label p = 1) (fst st) \<Longrightarrow>
     list_all (\<lambda>p. label p = 1) (fst (foldl (\<lambda>st file. process_image env th augs grp file st) st files))"
  by (induction files arbitrary: st) (simp_all add: process_image_labels)

lemma foldl_groups_labels:
  "list_all (\<lambda>p. label p = 1) (fst st) \<Longrightarrow>
     list_all (\<lambda>p. label p = 1)
       (fst (foldl (\<lambda>state (grp, files). foldl (\<lambda>st file. process_image env th augs grp file st) state files)
          st dataset))"
proof (induction dataset arbitrary: st)
  case Nil
  then show ?case by simp
next
  case (Cons a dataset)
  obtain grp files where a: "a = (grp, files)" by (cases a)
  have "list_all (\<lambda>p. label p = 1)
      (fst (foldl (\<lambda>st file. process_image env th augs grp file st) st files))"
    using Cons.prems by (rule foldl_images_labels)
  from Cons.IH[OF this] show ?case unfolding a by simp
qed

lemma process_dataset_labels:
  "list_all (\<lambda>p. label p = 1) (fst (process_dataset env th augs dataset))"
  unfolding process_dataset_def by (rule foldl_groups_labels) simp

lemma FMR_genuine_only:
  assumes "list_all (\<lambda>p. label p = 1) df" and "df \<noteq> []"
  shows "FMR (rates_of df) = Fin 0"
proof -
  from assms(1) have "filter (\<lambda>p. label p = 0 \<and> prediction p = 1) df = []"
    by (auto simp: filter_empty_conv list_all_iff)
  with assms(2) show ?thesis
    by (simp add: rates_of_def mask_mean_def)
qed

lemma pairs_by_groups:
  assumes "(k, g) \<in> set (pairs_by key df)"
  shows "g \<noteq> [] \<and> set g \<subseteq> set df"
proof -
  from assms have k: "k \<in> set (map key df)" and g: "g = filter (\<lambda>p. key p = k) df"
    by (auto simp: pairs_by_def)
  from k obtain p where "p \<in> set df" "key p = k" by auto
  then have "p \<in> set g" unfolding g by simp
  then have "g \<noteq> []" by auto
  moreover have "set g \<subseteq> set df" unfolding g by auto
  ultimately show ?thesis ..
qed

lemma FMR_by_key:
  assumes "list_all (\<lambda>p. label p = 1) df"
  shows "list_all (\<lambda>(k, r). FMR r = Fin 0) (map (\<lambda>(k, g). (k, rates_of g)) (pairs_by key df))"
proof -
  have "FMR (rates_of g) = Fin 0" if "(k, g) \<in> set (pairs_by key df)" for k g
  proof -
    from pairs_by_groups[OF that] have "g \<noteq> []" "set g \<subseteq> set df" by simp_all
    with assms have "list_all (\<lambda>p. label p = 1) g" by (auto simp: list_all_iff)
    with \<open>g \<noteq> []\<close> show ?thesis by (intro FMR_genuine_only)
  qed
  then show ?thesis by (auto simp: list_all_iff)
qed

lemma report_FMR:
  assumes "face_run_evaluation env th augs dataset = Inr rep"
  shows "FMR (overall_pairs rep) = Fin 0
       \<and> list_all (\<lambda>(k, r). FMR r = Fin 0) (by_group rep)
       \<and> list_all (\<lambda>(k, r). FMR r = Fin 0) (by_augmentation rep)"
proof -
  define results where "results = fst (process_dataset env th augs dataset)"
  from assms have cm: "compute_metrics results = Inr rep"
    by (auto simp: face_run_evaluation_def results_def split_beta Let_def split: if_splits)
  then have ne: "results \<noteq> []"
    by (auto simp: compute_metrics_def split: if_splits)
  have lab: "list_all (\<lambda>p. label p = 1) results"
    unfolding results_def by (rule process_dataset_labels)
  from cm ne have rep: "rep = \<lparr>overall_pairs = rates_of results,
                by_group = map (\<lambda>(k, g). (k, rates_of g)) (pairs_by group results),
                by_augmentation = map (\<lambda>(k, g). (k, rates_of g)) (pairs_by augmentation results)\<rparr>"
    by (simp add: compute_metrics_def)
  show ?thesis
    unfolding rep
    using FMR_genuine_only[OF lab ne] FMR_by_key[OF lab, of group] FMR_by_key[OF lab, of augmentation]
    by simp
qed

text \<open>
  \<^verbatim>\<open>face_bias_evaluator.py\<close> has a pairing loop of its own, which runs over
  \<^verbatim>\<open>["original"] + self.augmentations\<close>: for an image whose embeddings are all extracted and
  not all-zero it adds the original paired with itself under the tag \<^verbatim>\<open>"original"\<close> and then
  the original paired with each augmented variant, every pair with label 1. Every report it
  returns has FMR 0, overall, for each group and for each augmentation.
\<close>

lemma evaluator_loop_pairs:
  assumes "get_embedding env img = Some orig_emb" and "\<not> all_zero orig_emb"
    and "map (\<lambda>aug. get_embedding env (apply_augmentation env img aug)) augmentations = map Some embs"
    and "list_all (\<lambda>e. \<not> all_zero e) embs"
  shows "process_image env th augmentations grp (Some img) (results, n)
           = (results @ map (pair_of env th grp orig_emb) ((''original'', orig_emb) # zip augmentations embs),
              n + 1)
       \<and> length (fst (process_image env th augmentations grp (Some img) (results, n)))
           = length results + (length augmentations + 1)
       \<and> list_all (\<lambda>p. label p = 1)
           (map (pair_of env th grp orig_emb) ((''original'', orig_emb) # zip augmentations embs))
       \<and> (\<forall>rep. face_run_evaluation env th' augs dataset = Inr rep \<longrightarrow>
             FMR (overall_pairs rep) = Fin 0
           \<and> list_all (\<lambda>(k, r). FMR r = Fin 0) (by_group rep)
           \<and> list_all (\<lambda>(k, r). FMR r = Fin 0) (by_augmentation rep))"
proof -
  have all: "map (\<lambda>aug. get_embedding env (apply_augmentation env img aug)) (''original'' # augmentations)
      = map Some (orig_emb # embs)"
    using assms(1,3) by (simp add: apply_augmentation_def)
  have nz: "list_all (\<lambda>e. \<not> all_zero e) (orig_emb # embs)"
    using assms(2,4) by simp
  have loop: "aug_loop env th grp img orig_emb (''original'' # augmentations) results
      = (results @ map (pair_of env th grp orig_emb) ((''original'', orig_emb) # zip augmentations embs), True)"
    using aug_loop_all[OF all nz, of th grp orig_emb results] by simp
  have step: "process_image env th augmentations grp (Some img) (results, n)
      = (results @ map (pair_of env th grp orig_emb) ((''original'', orig_emb) # zip augmentations embs),
         n + 1)"
    unfolding process_image_def by (simp add: assms(1,2) loop del: aug_loop.simps)
  from assms(3) have "length embs = length augmentations"
    by (metis length_map)
  then have len: "length (fst (process_image env th augmentations grp (Some img) (results, n)))
      = length results + (length augmentations + 1)"
    unfolding step by simp
  have lab: "list_all (\<lambda>p. label p = 1)
      (map (pair_of env th grp orig_emb) ((''original'', orig_emb) # zip augmentations embs))"
    by (simp add: list_all_iff pair_of_def)
  from step len lab report_FMR[of env th' augs dataset] show ?thesis by blast
qed

lemma evaluator_loop_pairs_example:
  "get_embedding demo_face_env [1, 2] = Some [1, 2] \<and> \<not> all_zero [1, 2]
   \<and> map (\<lambda>aug. get_embedding demo_face_env (apply_augmentation demo_face_env [1, 2] aug))
        [''flip'', ''rotation'', ''blur''] = map Some [[2, 3], [2, 3], [2, 3]]
   \<and> list_all (\<lambda>e. \<not> all_zero e) [[2, 3], [2, 3], [2, 3]]
   \<and> length (fst (process_image demo_face_env 6 [''flip'', ''rotation'', ''blur''] ''male'' (Some [1, 2]) ([], 0))) = 4
   \<and> face_run_evaluation demo_face_env 6 [''flip'', ''rotation'', ''blur''] [(''male'', [Some [1, 2]])]
        = Inr demo_report
   \<and> FMR (overall_pairs demo_report) = Fin 0"
proof -
  have h1: "get_embedding demo_face_env [1, 2] = Some [1, 2]"
    by (simp add: demo_face_env_def)
  have h2: "\<not> all_zero [1, 2]"
    by (simp add: all_zero_def)
  have h3: "map (\<lambda>aug. get_embedding demo_face_env (apply_augmentation demo_face_env [1, 2] aug))
        [''flip'', ''rotation'', ''blur''] = map Some [[2, 3], [2, 3], [2, 3]]"
    by (simp add: demo_face_env_def apply_augmentation_def)
  have h4: "list_all (\<lambda>e. \<not> all_zero e) [[2, 3], [2, 3], [2, 3]]"
    by (simp add: all_zero_def)
  have run: "face_run_evaluation demo_face_env 6 [''flip'', ''rotation'', ''blur''] [(''male'', [Some [1, 2]])]
        = Inr demo_report"
    by code_simp
  from evaluator_loop_pairs[OF h1 h2 h3 h4, of 6 "''male''" "[]" 0 6 "[''flip'', ''rotation'', ''blur'']"
      "[(''male'', [Some [1, 2]])]"] h1 h2 h3 h4 run
  show ?thesis by simp
qed

lemma evaluator_loop_example_tags:
  "length (fst (process_dataset demo_face_env 0.5 [''flip'', ''rotation'', ''blur''] [(''male'', [Some [1, 2]])])) = 4
   \<and> map augmentation (fst (process_dataset demo_face_env 0.5 [''flip'', ''rotation'', ''blur'']
        [(''male'', [Some [1, 2]])])) = [''original'', ''flip'', ''rotation'', ''blur'']"
  by code_simp

section \<open>Genuine-only pairing in BiasEvaluator\<close>








lemma generated_pairs_threshold:
  "generate_augmented_pairs (self\<lparr>similarity_threshold := th\<rparr>) = generate_augmented_pairs self"
proof -
  have "identity_pairs (self\<lparr>similarity_threshold := th\<rparr>) = identity_pairs self"
    by (rule ext) (simp add: identity_pairs_def)
  then show ?thesis
    by (simp add: generate_augmented_pairs_def)
qed



end
